theory Spec2Isabelle
  imports Complex_Main "HOL-Library.Char_ord" "HOL-Library.List_Lexorder" "HOL-Library.Sublist"
begin

section \<open>Python values, errors and floats\<close>

text \<open>
  The market-analyst backend (\<^verbatim>\<open>day-03-market-analyst/backend\<close>) is Python over pandas.
  Exceptions are values of \<open>pyerr\<close>; a function that can raise returns \<open>pyerr + 'a\<close>
  with \<open>Inl\<close> the exception.  The text of an exception message is not modelled, only
  its class.
\<close>

datatype pyerr = TypeError | AttributeError | IndexError | KeyError | FetchError | NoHistoricalData

text \<open>
  A pandas/numpy float is a real number or one of the IEEE special values.  The
  operations below are exact on finite values and the sign of zero is not represented.
  Division follows numpy (no exception on a zero divisor).  Where a result depends on
  the rounding inside a library routine (the rolling means of the RSI), that routine is a
  parameter of the model and not one of these exact operations.
\<close>

datatype xfloat = Fin real | PInf | NInf | NaN

fun isna :: "xfloat \<Rightarrow> bool" where
  "isna NaN = True"
| "isna _ = False"

fun xneg :: "xfloat \<Rightarrow> xfloat" where
  "xneg (Fin a) = Fin (- a)"
| "xneg PInf = NInf"
| "xneg NInf = PInf"
| "xneg NaN = NaN"

fun xadd :: "xfloat \<Rightarrow> xfloat \<Rightarrow> xfloat" where
  "xadd NaN _ = NaN"
| "xadd _ NaN = NaN"
| "xadd (Fin a) (Fin b) = Fin (a + b)"
| "xadd PInf NInf = NaN"
| "xadd NInf PInf = NaN"
| "xadd PInf _ = PInf"
| "xadd NInf _ = NInf"
| "xadd (Fin a) PInf = PInf"
| "xadd (Fin a) NInf = NInf"

definition xsub :: "xfloat \<Rightarrow> xfloat \<Rightarrow> xfloat" where
  "xsub a b = xadd a (xneg b)"

fun xdiv :: "xfloat \<Rightarrow> xfloat \<Rightarrow> xfloat" where
  "xdiv NaN _ = NaN"
| "xdiv _ NaN = NaN"
| "xdiv (Fin a) (Fin b) =
     (if b \<noteq> 0 then Fin (a / b)
      else if a > 0 then PInf else if a < 0 then NInf else NaN)"
| "xdiv (Fin a) PInf = Fin 0"
| "xdiv (Fin a) NInf = Fin 0"
| "xdiv PInf (Fin b) = (if b \<ge> 0 then PInf else NInf)"
| "xdiv NInf (Fin b) = (if b \<ge> 0 then NInf else PInf)"
| "xdiv PInf _ = NaN"
| "xdiv NInf _ = NaN"

fun x_gt :: "xfloat \<Rightarrow> xfloat \<Rightarrow> bool" where
  "x_gt NaN _ = False"
| "x_gt _ NaN = False"
| "x_gt (Fin a) (Fin b) = (a > b)"
| "x_gt PInf PInf = False"
| "x_gt PInf _ = True"
| "x_gt NInf _ = False"
| "x_gt (Fin a) PInf = False"
| "x_gt (Fin a) NInf = True"

definition x_lt :: "xfloat \<Rightarrow> xfloat \<Rightarrow> bool" where
  "x_lt a b = x_gt b a"

section \<open>pandas Series operations used by the indicator engine\<close>

text \<open>A Series of closes is a list of reals, oldest first.  \<open>s.iloc[-1]\<close> raises
  IndexError on an empty Series.\<close>

definition iloc_last :: "'a list \<Rightarrow> pyerr + 'a" where
  "iloc_last xs = (if xs = [] then Inl IndexError else Inr (last xs))"

definition mean :: "real list \<Rightarrow> real" where
  "mean xs = sum_list xs / real (length xs)"

text \<open>\<open>s.rolling(window=n).AGG()\<close>: position \<open>i\<close> holds the aggregate of the \<open>n\<close>
  values ending at \<open>i\<close>, and NaN while fewer than \<open>n\<close> values are available
  (\<open>min_periods\<close> defaults to the window).\<close>

definition rolling :: "nat \<Rightarrow> (real list \<Rightarrow> real) \<Rightarrow> real list \<Rightarrow> xfloat list" where
  "rolling n agg xs =
     map (\<lambda>i. if Suc i < n then NaN else Fin (agg (take n (drop (Suc i - n) xs))))
       [0..<length xs]"

text \<open>\<open>s.diff()\<close>: the first entry is missing (NaN, here \<open>None\<close>), the others are the
  differences of neighbours.\<close>

definition diff :: "real list \<Rightarrow> real option list" where
  "diff xs = (case xs of [] \<Rightarrow> [] | x # rest \<Rightarrow> None # map2 (\<lambda>a b. Some (b - a)) xs rest)"

section \<open>RSI (\<^verbatim>\<open>StockAIAnalyzer._calculate_rsi\<close>, period 14)\<close>

text \<open>\<open>delta.where(delta > 0, 0)\<close> keeps the positive differences and writes 0 elsewhere
  (also over the missing first entry, since \<open>NaN > 0\<close> is false);
  \<open>-delta.where(delta < 0, 0)\<close> is the negation of the kept negative differences.\<close>

definition gains :: "real list \<Rightarrow> real list" where
  "gains prices =
     map (\<lambda>d. case d of None \<Rightarrow> 0 | Some v \<Rightarrow> if v > 0 then v else 0) (diff prices)"

definition losses :: "real list \<Rightarrow> real list" where
  "losses prices =
     map (\<lambda>d. - (case d of None \<Rightarrow> 0 | Some v \<Rightarrow> if v < 0 then v else 0)) (diff prices)"

text \<open>
  \<open>s.rolling(window=14).mean()\<close> is computed by pandas with an online floating-point sum:
  the window sum is updated by adding the entering value and subtracting the leaving one,
  with compensation terms, so the value at a bar carries rounding residue of bars that
  have left the window and is in general not the exact mean of the 14 values (it can even
  be negative on a window of non-negative values).  The RSI is therefore modelled over
  the Series that the library returns: \<open>rmean\<close> stands for \<open>rolling(window=14).mean()\<close>,
  and nothing is assumed about it but that the result has the index of its input.
\<close>

type_synonym rolling_mean = "real list \<Rightarrow> xfloat list"

definition keeps_index :: "rolling_mean \<Rightarrow> bool" where
  "keeps_index rmean = (\<forall>xs. length (rmean xs) = length xs)"

definition rsi_series :: "rolling_mean \<Rightarrow> real list \<Rightarrow> xfloat list" where
  "rsi_series rmean prices =
     (let gain = rmean (gains prices);
          loss = rmean (losses prices);
          rs = map2 xdiv gain loss
      in map (\<lambda>r. xsub (Fin 100) (xdiv (Fin 100) (xadd (Fin 1) r))) rs)"

definition calculate_rsi :: "rolling_mean \<Rightarrow> real list \<Rightarrow> xfloat" where
  "calculate_rsi rmean prices =
     (if length prices < 14 + 1 then Fin 50
      else case iloc_last (rsi_series rmean prices) of
             Inl e \<Rightarrow> Fin 50
           | Inr v \<Rightarrow> if isna v then Fin 50 else v)"

text \<open>The two values that the last RSI value is computed from: the rolling means of the
  gains and of the losses at the last bar, as the library returns them.\<close>

definition last_gain_mean :: "rolling_mean \<Rightarrow> real list \<Rightarrow> xfloat" where
  "last_gain_mean rmean prices = last (rmean (gains prices))"

definition last_loss_mean :: "rolling_mean \<Rightarrow> real list \<Rightarrow> xfloat" where
  "last_loss_mean rmean prices = last (rmean (losses prices))"

text \<open>The exact averages of the gains and of the losses over the last 14 periods.  The
  rolling mean without rounding, \<open>rolling 14 mean\<close>, returns them; the library returns them
  when every intermediate sum is exactly representable, as on small integers.\<close>

definition avg_gain :: "real list \<Rightarrow> real" where
  "avg_gain prices = mean (take 14 (drop (length prices - 14) (gains prices)))"

definition avg_loss :: "real list \<Rightarrow> real" where
  "avg_loss prices = mean (take 14 (drop (length prices - 14) (losses prices)))"



section \<open>The indicator engine (\<^verbatim>\<open>StockAIAnalyzer._technical_analysis\<close>)\<close>

text \<open>A DataFrame of daily bars: the index (a day number) and the OHLCV columns, oldest
  row first.\<close>

record bar =
  Open :: real
  High :: real
  Low :: real
  Close :: real
  Volume :: real

type_synonym dataframe = "(int \<times> bar) list"

definition column :: "(bar \<Rightarrow> real) \<Rightarrow> dataframe \<Rightarrow> real list" where
  "column c df = map (\<lambda>row. c (snd row)) df"

definition pybind :: "pyerr + 'a \<Rightarrow> ('a \<Rightarrow> pyerr + 'b) \<Rightarrow> pyerr + 'b" where
  "pybind m f = (case m of Inl e \<Rightarrow> Inl e | Inr v \<Rightarrow> f v)"

fun xmul :: "xfloat \<Rightarrow> xfloat \<Rightarrow> xfloat" where
  "xmul NaN _ = NaN"
| "xmul _ NaN = NaN"
| "xmul (Fin a) (Fin b) = Fin (a * b)"
| "xmul PInf (Fin b) = (if b > 0 then PInf else if b < 0 then NInf else NaN)"
| "xmul NInf (Fin b) = (if b > 0 then NInf else if b < 0 then PInf else NaN)"
| "xmul (Fin a) PInf = (if a > 0 then PInf else if a < 0 then NInf else NaN)"
| "xmul (Fin a) NInf = (if a > 0 then NInf else if a < 0 then PInf else NaN)"
| "xmul PInf PInf = PInf"
| "xmul PInf NInf = NInf"
| "xmul NInf PInf = NInf"
| "xmul NInf NInf = PInf"

text \<open>\<open>df['Close'].rolling(window=n).mean().iloc[-1] if len(df) >= n else current_price\<close>\<close>

definition sma :: "nat \<Rightarrow> dataframe \<Rightarrow> real \<Rightarrow> pyerr + xfloat" where
  "sma n df current_price =
     (if length df \<ge> n then iloc_last (rolling n mean (column Close df))
      else Inr (Fin current_price))"

text \<open>\<open>s.ewm(span=k).mean()\<close> with pandas' default \<open>adjust=True\<close>: at each position the
  average of all values so far, the value \<open>i\<close> steps back weighted \<open>(1 - \<alpha>)^i\<close>,
  \<open>\<alpha> = 2 / (k + 1)\<close>.\<close>

definition ewm_at :: "nat \<Rightarrow> real list \<Rightarrow> real" where
  "ewm_at k xs =
     (let a = 2 / (real k + 1);
          ws = map (\<lambda>i. (1 - a) ^ i) [0..<length xs]
      in sum_list (map2 (*) ws (rev xs)) / sum_list ws)"

definition ewm_mean :: "nat \<Rightarrow> real list \<Rightarrow> real list" where
  "ewm_mean k xs = map (\<lambda>t. ewm_at k (take (Suc t) xs)) [0..<length xs]"

text \<open>\<^verbatim>\<open>_calculate_macd\<close> returns (macd, macd_signal, macd_histogram); any exception
  gives the zeros.\<close>

definition calculate_macd :: "real list \<Rightarrow> xfloat \<times> xfloat \<times> xfloat" where
  "calculate_macd prices =
     (if length prices < 26 then (Fin 0, Fin 0, Fin 0)
      else
        let ema_12 = ewm_mean 12 prices;
            ema_26 = ewm_mean 26 prices;
            macd = map2 (-) ema_12 ema_26;
            macd_signal = ewm_mean 9 macd;
            macd_histogram = map2 (-) macd macd_signal
        in case pybind (iloc_last macd) (\<lambda>m.
                pybind (iloc_last macd_signal) (\<lambda>s.
                pybind (iloc_last macd_histogram) (\<lambda>h. Inr (Fin m, Fin s, Fin h)))) of
             Inl e \<Rightarrow> (Fin 0, Fin 0, Fin 0)
           | Inr r \<Rightarrow> r)"

text \<open>\<open>s.rolling(n).std()\<close> is the sample standard deviation (\<open>ddof = 1\<close>).\<close>

definition sample_std :: "real list \<Rightarrow> real" where
  "sample_std xs =
     sqrt (sum_list (map (\<lambda>x. (x - mean xs) ^ 2) xs) / (real (length xs) - 1))"

text \<open>\<^verbatim>\<open>_calculate_bollinger_bands\<close> returns (bb_upper, bb_middle, bb_lower).  The short
  series branch and the \<^verbatim>\<open>except\<close> handler both read \<open>prices.iloc[-1]\<close>; an exception
  raised inside the handler leaves the function.\<close>

definition bb_default :: "real list \<Rightarrow> pyerr + xfloat \<times> xfloat \<times> xfloat" where
  "bb_default prices =
     pybind (iloc_last prices) (\<lambda>current_price.
       Inr (Fin (current_price * 1.02), Fin current_price, Fin (current_price * 0.98)))"

definition bb_or :: "xfloat \<Rightarrow> real list \<Rightarrow> real \<Rightarrow> pyerr + xfloat" where
  \<comment> \<open>\<open>float(v) if not pd.isna(v) else prices.iloc[-1] * k\<close>\<close>
  "bb_or v prices k =
     (if \<not> isna v then Inr v else pybind (iloc_last prices) (\<lambda>p. Inr (Fin (p * k))))"

definition bb_body :: "real list \<Rightarrow> pyerr + xfloat \<times> xfloat \<times> xfloat" where
  "bb_body prices =
     (if length prices < 20 then bb_default prices
      else
        let sma_s = rolling 20 mean prices;
            std_s = rolling 20 sample_std prices;
            bb_upper = map2 (\<lambda>m s. xadd m (xmul s (Fin 2))) sma_s std_s;
            bb_lower = map2 (\<lambda>m s. xsub m (xmul s (Fin 2))) sma_s std_s
        in pybind (iloc_last bb_upper) (\<lambda>u. pybind (bb_or u prices 1.02) (\<lambda>upper.
           pybind (iloc_last sma_s) (\<lambda>m. pybind (bb_or m prices 1) (\<lambda>middle.
           pybind (iloc_last bb_lower) (\<lambda>l. pybind (bb_or l prices 0.98) (\<lambda>lower.
             Inr (upper, middle, lower))))))))"

definition calculate_bollinger_bands :: "real list \<Rightarrow> pyerr + xfloat \<times> xfloat \<times> xfloat" where
  "calculate_bollinger_bands prices =
     (case bb_body prices of Inl e \<Rightarrow> bb_default prices | Inr r \<Rightarrow> Inr r)"

text \<open>\<^verbatim>\<open>_find_support_resistance\<close> returns (resistance_level, support_level).
  \<open>Series.max()\<close> and \<open>Series.min()\<close> skip NaN and are NaN when nothing is left.\<close>

definition list_max :: "real list \<Rightarrow> real" where
  "list_max xs = (case xs of [] \<Rightarrow> 0 | x # rest \<Rightarrow> fold max rest x)"

definition list_min :: "real list \<Rightarrow> real" where
  "list_min xs = (case xs of [] \<Rightarrow> 0 | x # rest \<Rightarrow> fold min rest x)"

definition present :: "xfloat list \<Rightarrow> real list" where
  "present s = List.map_filter (\<lambda>v. case v of Fin r \<Rightarrow> Some r | _ \<Rightarrow> None) s"

definition series_max :: "xfloat list \<Rightarrow> xfloat" where
  "series_max s = (if present s = [] then NaN else Fin (list_max (present s)))"

definition series_min :: "xfloat list \<Rightarrow> xfloat" where
  "series_min s = (if present s = [] then NaN else Fin (list_min (present s)))"

definition sr_body :: "dataframe \<Rightarrow> pyerr + xfloat \<times> xfloat" where
  "sr_body df =
     (let highs = rolling 5 list_max (column High df);
          lows = rolling 5 list_min (column Low df)
      in pybind (if highs \<noteq> [] then Inr (series_max highs)
                 else pybind (iloc_last (column Close df)) (\<lambda>c. Inr (Fin (c * 1.05))))
           (\<lambda>resistance.
         pybind (if lows \<noteq> [] then Inr (series_min lows)
                 else pybind (iloc_last (column Close df)) (\<lambda>c. Inr (Fin (c * 0.95))))
           (\<lambda>support. Inr (resistance, support))))"

definition find_support_resistance :: "dataframe \<Rightarrow> pyerr + xfloat \<times> xfloat" where
  "find_support_resistance df =
     (case sr_body df of
        Inr r \<Rightarrow> Inr r
      | Inl e \<Rightarrow> pybind (iloc_last (column Close df)) (\<lambda>current_price.
                  Inr (Fin (current_price * 1.05), Fin (current_price * 0.95))))"

record indicators =
  sma_5 :: xfloat
  sma_10 :: xfloat
  sma_20 :: xfloat
  rsi :: xfloat
  macd :: xfloat
  macd_signal :: xfloat
  macd_histogram :: xfloat
  bb_upper :: xfloat
  bb_middle :: xfloat
  bb_lower :: xfloat
  resistance_level :: xfloat
  support_level :: xfloat

record price_analysis =
  ma_position :: string
  ma_signal :: string
  bb_position :: string

definition analyze_price_position :: "real \<Rightarrow> indicators \<Rightarrow> price_analysis" where
  "analyze_price_position current_price ind =
     \<lparr>ma_position = (if x_gt (Fin current_price) (sma_20 ind) then ''above'' else ''below''),
      ma_signal = (if x_gt (Fin current_price) (sma_20 ind) then ''bullish'' else ''bearish''),
      bb_position =
        (if x_gt (Fin current_price) (bb_upper ind) then ''overbought''
         else if x_lt (Fin current_price) (bb_lower ind) then ''oversold''
         else ''normal'')\<rparr>"

definition generate_technical_signals :: "indicators \<Rightarrow> real \<Rightarrow> string list" where
  "generate_technical_signals ind current_price =
     (if x_gt (rsi ind) (Fin 70) then [''RSI indicates overbought condition'']
      else if x_lt (rsi ind) (Fin 30) then [''RSI indicates oversold condition'']
      else [])
     @ [if x_gt (macd ind) (macd_signal ind) then ''MACD shows bullish momentum''
        else ''MACD shows bearish momentum'']
     @ [if x_gt (sma_5 ind) (sma_20 ind) then ''Short-term MA above long-term MA (bullish)''
        else ''Short-term MA below long-term MA (bearish)'']"

record technical =
  tech_indicators :: indicators
  tech_price_analysis :: price_analysis
  tech_signals :: "string list"

text \<open>\<^verbatim>\<open>_technical_analysis\<close>: any exception raised while the indicators are computed is
  caught and the function returns the dict \<open>{'error': ...}\<close> instead of the three keys
  \<open>indicators\<close>, \<open>price_analysis\<close>, \<open>signals\<close>; that dict is \<open>Inl\<close> here.  The parameter
  \<open>rmean\<close> is the library's 14-period rolling mean used by the RSI.\<close>

definition technical_analysis :: "rolling_mean \<Rightarrow> dataframe \<Rightarrow> real \<Rightarrow> pyerr + technical" where
  "technical_analysis rmean df current_price =
     pybind (sma 5 df current_price) (\<lambda>s5.
     pybind (sma 10 df current_price) (\<lambda>s10.
     pybind (sma 20 df current_price) (\<lambda>s20.
     let r = calculate_rsi rmean (column Close df);
         (m, ms, mh) = calculate_macd (column Close df)
     in pybind (calculate_bollinger_bands (column Close df)) (\<lambda>(bu, bm, bl).
        pybind (find_support_resistance df) (\<lambda>(res, sup).
        let ind = \<lparr>sma_5 = s5, sma_10 = s10, sma_20 = s20, rsi = r,
                   macd = m, macd_signal = ms, macd_histogram = mh,
                   bb_upper = bu, bb_middle = bm, bb_lower = bl,
                   resistance_level = res, support_level = sup\<rparr>
        in Inr \<lparr>tech_indicators = ind,
                tech_price_analysis = analyze_price_position current_price ind,
                tech_signals = generate_technical_signals ind current_price\<rparr>)))))"

section \<open>The recommendation engine (\<^verbatim>\<open>StockAIAnalyzer._generate_recommendation\<close>)\<close>

text \<open>The engine receives five dicts.  A dict is an association list from keys to Python
  values (the first binding of a key counts); a value is \<open>None\<close>, a number, a string or
  a nested dict.\<close>

datatype pyval = PNone | PNum real | PStr string | PDict "(string \<times> pyval) list"

type_synonym pydict = "(string \<times> pyval) list"

definition dict_get :: "pydict \<Rightarrow> string \<Rightarrow> pyval \<Rightarrow> pyval" where
  \<comment> \<open>\<open>d.get(k, default)\<close>\<close>
  "dict_get d k dflt = (case map_of d k of None \<Rightarrow> dflt | Some v \<Rightarrow> v)"

text \<open>\<open>a > b\<close> and \<open>a < b\<close>: numbers compare as numbers, strings lexicographically, and
  every other pair of these values raises TypeError.\<close>

fun py_gt :: "pyval \<Rightarrow> pyval \<Rightarrow> pyerr + bool" where
  "py_gt (PNum a) (PNum b) = Inr (a > b)"
| "py_gt (PStr a) (PStr b) = Inr (a > b)"
| "py_gt _ _ = Inl TypeError"

definition py_lt :: "pyval \<Rightarrow> pyval \<Rightarrow> pyerr + bool" where
  "py_lt a b = py_gt b a"

text \<open>The running state of the scoring: \<open>score\<close> and \<open>factors\<close>.\<close>

type_synonym scoring = "int \<times> string list"

definition add_factor :: "int \<Rightarrow> string \<Rightarrow> scoring \<Rightarrow> scoring" where
  \<comment> \<open>\<open>score += d; factors.append(text)\<close>\<close>
  "add_factor d text st = (fst st + d, snd st @ [text])"

text \<open>Technical factors: skipped when the key \<open>indicators\<close> is absent;
  \<open>technical['indicators'].get\<close> raises AttributeError unless the value is a dict.\<close>

definition technical_step :: "pydict \<Rightarrow> scoring \<Rightarrow> pyerr + scoring" where
  "technical_step technical st =
     (case map_of technical ''indicators'' of
        None \<Rightarrow> Inr st
      | Some (PDict ind) \<Rightarrow>
          pybind (py_lt (dict_get ind ''rsi'' (PNum 50)) (PNum 30)) (\<lambda>oversold.
          pybind (if oversold then Inr (add_factor 2 ''RSI oversold (bullish)'' st)
                  else pybind (py_gt (dict_get ind ''rsi'' (PNum 50)) (PNum 70)) (\<lambda>overbought.
                         Inr (if overbought
                              then add_factor (- 2) ''RSI overbought (bearish)'' st
                              else st))) (\<lambda>st1.
          pybind (py_gt (dict_get ind ''macd'' (PNum 0))
                        (dict_get ind ''macd_signal'' (PNum 0))) (\<lambda>crossover.
            Inr (if crossover then add_factor 1 ''MACD bullish crossover'' st1
                 else add_factor (- 1) ''MACD bearish crossover'' st1))))
      | Some _ \<Rightarrow> Inl AttributeError)"

definition trend_step :: "pydict \<Rightarrow> scoring \<Rightarrow> scoring" where
  "trend_step trend st =
     (if dict_get trend ''trend'' PNone = PStr ''bullish''
      then add_factor 2 ''Strong bullish trend'' st
      else if dict_get trend ''trend'' PNone = PStr ''bearish''
      then add_factor (- 2) ''Strong bearish trend'' st
      else st)"

definition news_step :: "pydict \<Rightarrow> scoring \<Rightarrow> scoring" where
  "news_step news st =
     (let news_sentiment = dict_get news ''overall_sentiment'' (PStr ''neutral'')
      in if news_sentiment = PStr ''positive''
         then add_factor 1 ''Positive news sentiment'' st
         else if news_sentiment = PStr ''negative''
         then add_factor (- 1) ''Negative news sentiment'' st
         else st)"

definition risk_step :: "pydict \<Rightarrow> scoring \<Rightarrow> scoring" where
  "risk_step risk st =
     (let risk_level = dict_get risk ''risk_level'' (PStr ''medium'')
      in if risk_level = PStr ''high''
         then add_factor (- 1) ''High volatility risk'' st
         else st)"

text \<open>\<open>round(x, 1)\<close>: the nearest multiple of one tenth, an exact tie going to the even
  neighbour.\<close>

definition py_round1 :: "real \<Rightarrow> real" where
  "py_round1 x =
     (let y = x * 10; f = \<lfloor>y\<rfloor>; d = y - of_int f
      in (if d < 1 / 2 then of_int f
          else if d > 1 / 2 then of_int (f + 1)
          else if even f then of_int f else of_int (f + 1)) / 10)"

text \<open>The tier, the action and the confidence before rounding, from the total score.\<close>

definition tier_of_score :: "int \<Rightarrow> string \<times> string \<times> real" where
  "tier_of_score sc =
     (if sc \<ge> 3 then (''strong_buy'', ''BUY'', min (of_int sc / 5 * 100) 95)
      else if sc \<ge> 1 then (''buy'', ''BUY'', min (of_int sc / 3 * 100) 80)
      else if sc \<le> - 3 then (''strong_sell'', ''SELL'', min (of_int \<bar>sc\<bar> / 5 * 100) 95)
      else if sc \<le> - 1 then (''sell'', ''SELL'', min (of_int \<bar>sc\<bar> / 3 * 100) 80)
      else (''hold'', ''HOLD'', 60))"

fun py_join :: "string \<Rightarrow> string list \<Rightarrow> string" where
  "py_join sep [] = []"
| "py_join sep [x] = x"
| "py_join sep (x # y # rest) = x @ sep @ py_join sep (y # rest)"

definition reasoning_map :: "(string \<times> string) list" where
  "reasoning_map =
     [(''strong_buy'', ''Strong technical indicators and positive sentiment suggest this is an excellent buying opportunity.''),
      (''buy'', ''Multiple positive indicators suggest this stock has good upward potential.''),
      (''hold'', ''Mixed signals suggest maintaining current position and monitoring closely.''),
      (''sell'', ''Several negative indicators suggest it may be time to consider selling.''),
      (''strong_sell'', ''Strong negative indicators suggest immediate selling may be prudent.'')]"

definition generate_reasoning :: "string \<Rightarrow> string list \<Rightarrow> string" where
  "generate_reasoning tier fs =
     (let base_reasoning =
            (case map_of reasoning_map tier of
               None \<Rightarrow> ''Analysis is inconclusive.''
             | Some b \<Rightarrow> b)
      in if fs \<noteq> []
         then base_reasoning @ '' Key factors include: '' @ py_join '', '' (take 3 fs)
         else base_reasoning)"

text \<open>The returned dict.  The keys \<open>score\<close>, \<open>factors\<close> and \<open>reasoning\<close> exist only on the
  normal path, the key \<open>error\<close> only on the path of the \<^verbatim>\<open>except\<close> handler.\<close>

record recommendation_dict =
  recommendation :: string
  action :: string
  confidence :: real
  score :: "int option"
  factors :: "string list option"
  reasoning :: "string option"
  error :: "pyerr option"

definition recommendation_body ::
  "pydict \<Rightarrow> pydict \<Rightarrow> pydict \<Rightarrow> pydict \<Rightarrow> pydict \<Rightarrow> pyerr + recommendation_dict" where
  "recommendation_body technical trend volume risk news =
     pybind (technical_step technical (0, [])) (\<lambda>st1.
       let st = risk_step risk (news_step news (trend_step trend st1));
           (tier, act, conf) = tier_of_score (fst st)
       in Inr \<lparr>recommendation = tier, action = act, confidence = py_round1 conf,
               score = Some (fst st), factors = Some (snd st),
               reasoning = Some (generate_reasoning tier (snd st)), error = None\<rparr>)"

definition generate_recommendation ::
  "pydict \<Rightarrow> pydict \<Rightarrow> pydict \<Rightarrow> pydict \<Rightarrow> pydict \<Rightarrow> recommendation_dict" where
  "generate_recommendation technical trend volume risk news =
     (case recommendation_body technical trend volume risk news of
        Inr r \<Rightarrow> r
      | Inl e \<Rightarrow> \<lparr>recommendation = ''hold'', action = ''HOLD'', confidence = 50,
                   score = None, factors = None, reasoning = None, error = Some e\<rparr>)"

text \<open>The scoring table of the specification (section 4.5), written from its rows: the
  delta of each factor text, and the sum of the deltas of the rows whose condition holds.
  The indicator rows need indicator values; \<open>None\<close> stands for a technical input without
  indicators.\<close>

definition spec_factor_delta :: "string \<Rightarrow> int" where
  "spec_factor_delta f =
     (if f = ''RSI oversold (bullish)'' then 2
      else if f = ''RSI overbought (bearish)'' then - 2
      else if f = ''MACD bullish crossover'' then 1
      else if f = ''MACD bearish crossover'' then - 1
      else if f = ''Strong bullish trend'' then 2
      else if f = ''Strong bearish trend'' then - 2
      else if f = ''Positive news sentiment'' then 1
      else if f = ''Negative news sentiment'' then - 1
      else if f = ''High volatility risk'' then - 1
      else 0)"

definition spec_table_score ::
  "(real \<times> real \<times> real) option \<Rightarrow> pyval \<Rightarrow> pyval \<Rightarrow> pyval \<Rightarrow> int" where
  "spec_table_score ind trend_v sentiment_v risk_v =
     (case ind of
        None \<Rightarrow> 0
      | Some (r, m, s) \<Rightarrow>
          (if r < 30 then 2 else 0) + (if r > 70 then - 2 else 0) +
          (if m > s then 1 else 0) + (if m \<le> s then - 1 else 0))
     + (if trend_v = PStr ''bullish'' then 2 else 0)
     + (if trend_v = PStr ''bearish'' then - 2 else 0)
     + (if sentiment_v = PStr ''positive'' then 1 else 0)
     + (if sentiment_v = PStr ''negative'' then - 1 else 0)
     + (if risk_v = PStr ''high'' then - 1 else 0)"

definition delta_sum :: "string list \<Rightarrow> int" where
  \<comment> \<open>the score re-derived from a list of factor texts\<close>
  "delta_sum fs = sum_list (map spec_factor_delta fs)"

section \<open>Sentiment aggregation (\<^verbatim>\<open>NewsStockFetcher.analyze_news_sentiment\<close>)\<close>

text \<open>An article is a dict from field names to text.  The caller's list holds references
  to article objects, and the loop assigns into those objects, so the articles live in a
  store and the list is a list of addresses (the same object may occur twice).\<close>

type_synonym article = "string \<rightharpoonup> string"

type_synonym store = "nat \<Rightarrow> article"

definition lower_char :: "char \<Rightarrow> char" where
  "lower_char c =
     (case map_of (zip ''ABCDEFGHIJKLMNOPQRSTUVWXYZ'' ''abcdefghijklmnopqrstuvwxyz'') c of
        None \<Rightarrow> c
      | Some l \<Rightarrow> l)"

definition lower :: "string \<Rightarrow> string" where
  \<comment> \<open>\<open>str.lower()\<close> on ASCII text\<close>
  "lower s = map lower_char s"

fun py_in :: "string \<Rightarrow> string \<Rightarrow> bool" where
  \<comment> \<open>\<open>keyword in text\<close>: the keyword occurs as a contiguous substring\<close>
  "py_in k [] = (k = [])"
| "py_in k (c # cs) = (prefix k (c # cs) \<or> py_in k cs)"

definition positive_keywords :: "string list" where
  "positive_keywords =
     [''profit'', ''growth'', ''increase'', ''rise'', ''gain'', ''bull'', ''up'', ''surge'',
      ''rally'', ''boost'', ''positive'', ''strong'', ''beat'', ''exceed'', ''outperform'',
      ''upgrade'', ''buy'', ''recommend'', ''bullish'', ''optimistic'']"

definition negative_keywords :: "string list" where
  "negative_keywords =
     [''loss'', ''decline'', ''fall'', ''drop'', ''bear'', ''down'', ''crash'', ''plunge'',
      ''negative'', ''weak'', ''miss'', ''underperform'', ''downgrade'', ''sell'',
      ''bearish'', ''pessimistic'', ''warning'', ''concern'', ''risk'']"

definition article_get :: "article \<Rightarrow> string \<Rightarrow> string \<Rightarrow> string" where
  "article_get a k dflt = (case a k of None \<Rightarrow> dflt | Some v \<Rightarrow> v)"

definition article_text :: "article \<Rightarrow> string" where
  \<comment> \<open>\<open>f"{article.get('title', '')} {article.get('description', '')}".lower()\<close>\<close>
  "article_text a = lower (article_get a ''title'' '''' @ '' '' @ article_get a ''description'' '''')"

definition positive_score :: "article \<Rightarrow> nat" where
  "positive_score a = length (filter (\<lambda>keyword. py_in keyword (article_text a)) positive_keywords)"

definition negative_score :: "article \<Rightarrow> nat" where
  "negative_score a = length (filter (\<lambda>keyword. py_in keyword (article_text a)) negative_keywords)"

definition classify :: "article \<Rightarrow> string \<times> int" where
  \<comment> \<open>the pair (sentiment, score) of one article\<close>
  "classify a =
     (if positive_score a > negative_score a then (''positive'', 1)
      else if negative_score a > positive_score a then (''negative'', - 1)
      else (''neutral'', 0))"

text \<open>The loop over the articles: \<open>article['sentiment'] = sentiment\<close> writes into the
  object, \<open>sentiment_scores.append(score)\<close> extends the local list.\<close>

fun sentiment_loop :: "nat list \<Rightarrow> store \<Rightarrow> int list \<Rightarrow> store \<times> int list" where
  "sentiment_loop [] h sentiment_scores = (h, sentiment_scores)"
| "sentiment_loop (a # rest) h sentiment_scores =
     sentiment_loop rest
       (h(a := (h a)(''sentiment'' \<mapsto> fst (classify (h a)))))
       (sentiment_scores @ [snd (classify (h a))])"

text \<open>The returned summary.  The key \<open>confidence\<close> is the field \<open>sentiment_confidence\<close>;
  the keys \<open>articles_analyzed\<close> and \<open>sentiment_score\<close> exist only in the dict returned
  for a non-empty list.\<close>

record sentiment_summary =
  overall_sentiment :: string
  positive_count :: nat
  negative_count :: nat
  neutral_count :: int
  sentiment_confidence :: real
  articles_analyzed :: "nat option"
  sentiment_score :: "real option"

definition analyze_news_sentiment :: "nat list \<Rightarrow> store \<Rightarrow> sentiment_summary \<times> store" where
  "analyze_news_sentiment articles h =
     (if articles = []
      then (\<lparr>overall_sentiment = ''neutral'', positive_count = 0, negative_count = 0,
             neutral_count = 0, sentiment_confidence = 0, articles_analyzed = None,
             sentiment_score = None\<rparr>, h)
      else
        let (h', sentiment_scores) = sentiment_loop articles h [];
            avg_score = (if sentiment_scores \<noteq> []
                         then real_of_int (sum_list sentiment_scores) / real (length sentiment_scores)
                         else 0);
            pos = length (filter (\<lambda>s. s > 0) sentiment_scores);
            neg = length (filter (\<lambda>s. s < 0) sentiment_scores)
        in (\<lparr>overall_sentiment =
                (if avg_score > 0.1 then ''positive''
                 else if avg_score < - 0.1 then ''negative'' else ''neutral''),
              positive_count = pos, negative_count = neg,
              neutral_count = int (length sentiment_scores) - int pos - int neg,
              sentiment_confidence = \<bar>avg_score\<bar>,
              articles_analyzed = Some (length articles),
              sentiment_score = Some ((avg_score + 1) * 5)\<rparr>, h'))"

text \<open>\<^verbatim>\<open>get_stock_news_sentiment\<close>, the caller of the aggregation, on the articles that
  \<^verbatim>\<open>get_stock_news\<close> fetched (that function returns a list and never raises).  Reading
  a missing key of the summary raises KeyError, which the enclosing handler turns into the
  failure dict.  The keys \<open>symbol\<close> and \<open>message\<close> of the returned dict are left out;
  \<open>confidence\<close> and \<open>articles_analyzed\<close> exist only on success.\<close>

record news_sentiment =
  ns_success :: bool
  ns_overall_sentiment :: string
  ns_sentiment_score :: real
  ns_positive_count :: nat
  ns_negative_count :: nat
  ns_neutral_count :: int
  ns_confidence :: "real option"
  ns_articles_analyzed :: "nat option"
  ns_articles :: "nat list"

definition no_news :: news_sentiment where
  "no_news =
     \<lparr>ns_success = False, ns_overall_sentiment = ''neutral'', ns_sentiment_score = 5.0,
      ns_positive_count = 0, ns_negative_count = 0, ns_neutral_count = 0,
      ns_confidence = None, ns_articles_analyzed = None, ns_articles = []\<rparr>"

definition get_stock_news_sentiment :: "nat list \<Rightarrow> store \<Rightarrow> news_sentiment \<times> store" where
  "get_stock_news_sentiment articles h =
     (if articles = [] then (no_news, h)
      else
        let (sentiment_analysis, h') = analyze_news_sentiment articles h
        in case (sentiment_score sentiment_analysis, articles_analyzed sentiment_analysis) of
             (Some sc, Some n) \<Rightarrow>
               (\<lparr>ns_success = True,
                 ns_overall_sentiment = overall_sentiment sentiment_analysis,
                 ns_sentiment_score = sc,
                 ns_positive_count = positive_count sentiment_analysis,
                 ns_negative_count = negative_count sentiment_analysis,
                 ns_neutral_count = neutral_count sentiment_analysis,
                 ns_confidence = Some (sentiment_confidence sentiment_analysis),
                 ns_articles_analyzed = Some n,
                 ns_articles = take 5 articles\<rparr>, h')
           | _ \<Rightarrow> (no_news, h'))"

section \<open>The cache (\<^verbatim>\<open>StockDatabase\<close>)\<close>

text \<open>
  The SQLite tables are lists of rows.  A timestamp is a number of seconds, a date is a
  day number, and \<open>date_of\<close> is the calendar day of a timestamp.  One call reads the
  clock once.  The columns of \<^verbatim>\<open>historical_data\<close> carry the prefix \<open>hr_\<close>; the column
  \<^verbatim>\<open>created_at\<close> is read by no query and is left out.
\<close>

definition date_of :: "int \<Rightarrow> int" where
  "date_of now = now div 86400"

record hist_row =
  hr_id :: nat
  hr_symbol :: string
  hr_date :: int
  hr_open_price :: real
  hr_high :: real
  hr_low :: real
  hr_close_price :: real
  hr_volume :: real

record tracking =
  last_fetch_date :: int
  last_historical_date :: "int option"
  fetch_count :: nat
  updated_at :: int

record database =
  historical_data :: "hist_row list"
  next_id :: nat
  fetch_tracking :: "string \<rightharpoonup> tracking"
  configuration :: "string \<rightharpoonup> string"

text \<open>\<^verbatim>\<open>create_tables\<close> on a fresh file: empty tables and the default configuration.\<close>

definition create_tables :: database where
  "create_tables =
     \<lparr>historical_data = [], next_id = 1, fetch_tracking = Map.empty,
      configuration =
        [''default_fetch_days'' \<mapsto> ''5'',
         ''fetch_symbols'' \<mapsto> ''AAPL,GOOGL,MSFT,AMZN,TSLA,META,NVDA,NFLX,DIS,ORCL'',
         ''fetch_interval_minutes'' \<mapsto> ''15'',
         ''max_retries'' \<mapsto> ''3'',
         ''rate_limit_delay'' \<mapsto> ''0.2'']\<rparr>"

definition get_config_value :: "database \<Rightarrow> string \<Rightarrow> string \<Rightarrow> string" where
  "get_config_value d k dflt = (case configuration d k of None \<Rightarrow> dflt | Some v \<Rightarrow> v)"

text \<open>\<open>INSERT OR REPLACE INTO historical_data\<close> under the constraint
  \<open>UNIQUE(symbol, date)\<close>: the rows in conflict with the new one are deleted, then the new
  row is inserted with the next \<open>AUTOINCREMENT\<close> id.\<close>

definition insert_or_replace :: "string \<Rightarrow> int \<Rightarrow> bar \<Rightarrow> database \<Rightarrow> database" where
  "insert_or_replace symbol day b d =
     d\<lparr>historical_data :=
          filter (\<lambda>r. (hr_symbol r, hr_date r) \<noteq> (symbol, day)) (historical_data d) @
          [\<lparr>hr_id = next_id d, hr_symbol = symbol, hr_date = day,
            hr_open_price = Open b, hr_high = High b, hr_low = Low b,
            hr_close_price = Close b, hr_volume = Volume b\<rparr>],
       next_id := Suc (next_id d)\<rparr>"

text \<open>\<^verbatim>\<open>store_historical_data\<close>: one upsert per row of the DataFrame, in order, then
  the \<open>UPDATE\<close> of the symbol's tracking row (if there is one), then the commit.  With
  numeric bars no statement fails, so the rollback path is not reached.\<close>

definition store_historical_data :: "int \<Rightarrow> string \<Rightarrow> dataframe \<Rightarrow> database \<Rightarrow> database" where
  "store_historical_data now symbol df d =
     (let d1 = fold (\<lambda>row. insert_or_replace symbol (fst row) (snd row)) df d
      in if df \<noteq> []
         then d1\<lparr>fetch_tracking :=
                   (case fetch_tracking d1 symbol of
                      None \<Rightarrow> fetch_tracking d1
                    | Some t \<Rightarrow>
                        (fetch_tracking d1)
                          (symbol \<mapsto> t\<lparr>last_historical_date := Some (fst (last df)),
                                         updated_at := now\<rparr>))\<rparr>
         else d1)"

text \<open>\<^verbatim>\<open>StockDatabase.get_historical_data\<close>: the stored Series of a symbol, ordered by
  date; with a (non-zero) number of days only the bars dated from \<open>now - days\<close> on.\<close>

definition in_window :: "int \<Rightarrow> nat option \<Rightarrow> int \<Rightarrow> bool" where
  "in_window now days day =
     (case days of
        None \<Rightarrow> True
      | Some n \<Rightarrow> if n \<noteq> 0 then day \<ge> date_of (now - int n * 86400) else True)"

definition db_get_historical_data :: "int \<Rightarrow> string \<Rightarrow> nat option \<Rightarrow> database \<Rightarrow> dataframe" where
  "db_get_historical_data now symbol days d =
     sort_key fst
       (map (\<lambda>r. (hr_date r,
                   \<lparr>Open = hr_open_price r, High = hr_high r, Low = hr_low r,
                    Close = hr_close_price r, Volume = hr_volume r\<rparr>))
          (filter (\<lambda>r. hr_symbol r = symbol \<and> in_window now days (hr_date r))
             (historical_data d)))"

text \<open>\<^verbatim>\<open>get_last_historical_date\<close>: \<open>SELECT MAX(date)\<close> over the symbol's bars.\<close>

definition get_last_historical_date :: "string \<Rightarrow> database \<Rightarrow> int option" where
  "get_last_historical_date symbol d =
     (case map hr_date (filter (\<lambda>r. hr_symbol r = symbol) (historical_data d)) of
        [] \<Rightarrow> None
      | x # rest \<Rightarrow> Some (fold max rest x))"

text \<open>The content of the table as a map from (symbol, date) to the bar stored there, and
  the uniqueness constraint of the schema.\<close>

definition row_key :: "hist_row \<Rightarrow> string \<times> int" where
  "row_key r = (hr_symbol r, hr_date r)"

definition row_bar :: "hist_row \<Rightarrow> bar" where
  "row_bar r = \<lparr>Open = hr_open_price r, High = hr_high r, Low = hr_low r,
               Close = hr_close_price r, Volume = hr_volume r\<rparr>"

definition bars_of :: "database \<Rightarrow> (string \<times> int) \<rightharpoonup> bar" where
  "bars_of d = map_of (map (\<lambda>r. (row_key r, row_bar r)) (historical_data d))"

definition unique_keys :: "database \<Rightarrow> bool" where
  "unique_keys d = distinct (map row_key (historical_data d))"

definition upserts :: "(int \<times> string \<times> dataframe) list \<Rightarrow> database \<Rightarrow> database" where
  \<comment> \<open>a sequence of calls of \<^verbatim>\<open>store_historical_data\<close>, each (now, symbol, df)\<close>
  "upserts calls d = fold (\<lambda>c. store_historical_data (fst c) (fst (snd c)) (snd (snd c))) calls d"

section \<open>The gateway (\<^verbatim>\<open>StockDataFetcher.get_historical_data\<close>)\<close>

text \<open>
  The two price sources are collaborators: \<^verbatim>\<open>_get_historical_alpha_vantage\<close> and
  \<^verbatim>\<open>_get_historical_free_api\<close> answer a (symbol, period) request with a DataFrame or
  raise.  The fetcher holds the API key and the database; \<open>fetch_calls\<close> is not a field
  of the Python object, it counts the requests sent to a source so that "without
  invoking any fetch source" can be stated.
\<close>

record sources =
  alpha_vantage :: "string \<Rightarrow> string \<Rightarrow> pyerr + dataframe"
  free_api :: "string \<Rightarrow> string \<Rightarrow> pyerr + dataframe"

record fetcher =
  api_key :: "string option"
  db :: database
  fetch_calls :: nat

definition period_to_days :: "string \<Rightarrow> nat" where
  "period_to_days period =
     (case map_of [(''1d'', 1), (''5d'', 5), (''1mo'', 30), (''3mo'', 90), (''6mo'', 180),
                   (''1y'', 365), (''2y'', 730), (''5y'', 1825), (''10y'', 3650)] period of
        None \<Rightarrow> 30
      | Some n \<Rightarrow> n)"

definition resolve_period :: "fetcher \<Rightarrow> string option \<Rightarrow> string" where
  \<comment> \<open>\<open>period\<close> defaults to the configured number of days followed by \<open>d\<close>\<close>
  "resolve_period f period =
     (case period of
        None \<Rightarrow> get_config_value (db f) ''default_fetch_days'' ''5'' @ ''d''
      | Some p \<Rightarrow> p)"

definition cached_window :: "int \<Rightarrow> string \<Rightarrow> string \<Rightarrow> fetcher \<Rightarrow> dataframe" where
  \<comment> \<open>\<open>self.db.get_historical_data(symbol, self._period_to_days(period))\<close>\<close>
  "cached_window now symbol period f =
     db_get_historical_data now symbol (Some (period_to_days period)) (db f)"

definition is_recent :: "int \<Rightarrow> int option \<Rightarrow> bool" where
  \<comment> \<open>\<open>last_date and (datetime.now() - last_date).days < 1\<close>, the last date at midnight\<close>
  "is_recent now last_date =
     (case last_date of None \<Rightarrow> False | Some day \<Rightarrow> (now - day * 86400) div 86400 < 1)"

definition served_from_cache :: "int \<Rightarrow> string \<Rightarrow> string \<Rightarrow> bool \<Rightarrow> fetcher \<Rightarrow> bool" where
  "served_from_cache now symbol period force_fetch f =
     (\<not> force_fetch \<and> cached_window now symbol period f \<noteq> [] \<and>
      is_recent now (get_last_historical_date symbol (db f)))"

definition fetch :: "sources \<Rightarrow> string \<Rightarrow> string \<Rightarrow> fetcher \<Rightarrow> pyerr + dataframe" where
  \<comment> \<open>the source chosen by \<open>if self.api_key\<close> (a missing or empty key is false)\<close>
  "fetch src symbol period f =
     (if api_key f \<noteq> None \<and> api_key f \<noteq> Some []
      then alpha_vantage src symbol period
      else free_api src symbol period)"

definition get_historical_data ::
  "sources \<Rightarrow> int \<Rightarrow> string \<Rightarrow> string option \<Rightarrow> bool \<Rightarrow> fetcher
     \<Rightarrow> (pyerr + dataframe) \<times> fetcher" where
  "get_historical_data src now symbol period_arg force_fetch f =
     (let period = resolve_period f period_arg
      in if served_from_cache now symbol period force_fetch f
         then (Inr (cached_window now symbol period f), f)
         else
           let f1 = f\<lparr>fetch_calls := Suc (fetch_calls f)\<rparr>
           in case fetch src symbol period f of
                Inr df \<Rightarrow>
                  (Inr df,
                   if df \<noteq> []
                   then f1\<lparr>db := store_historical_data now symbol df (db f1)\<rparr>
                   else f1)
              | Inl e \<Rightarrow>
                  (let db_data = cached_window now symbol period f1
                   in if db_data \<noteq> [] then (Inr db_data, f1)
                      else (Inl NoHistoricalData, f1)))"

text \<open>Example inputs: sources that are down, a bar, and a fetcher without API key whose
  database was filled by one \<^verbatim>\<open>store_historical_data\<close> call at the given time with one
  AAPL bar of the given day.\<close>

abbreviation sources_down :: sources where
  "sources_down \<equiv>
     \<lparr>alpha_vantage = (\<lambda>symbol period. Inl FetchError),
      free_api = (\<lambda>symbol period. Inl FetchError)\<rparr>"

abbreviation one_bar :: bar where
  "one_bar \<equiv> \<lparr>Open = 10, High = 12, Low = 9, Close = 11, Volume = 1000\<rparr>"

abbreviation sources_up :: sources where
  "sources_up \<equiv>
     \<lparr>alpha_vantage = (\<lambda>symbol period. Inr [(100, one_bar)]),
      free_api = (\<lambda>symbol period. Inr [(100, one_bar)])\<rparr>"

abbreviation fetcher_with_bar :: "int \<Rightarrow> int \<Rightarrow> fetcher" where
  "fetcher_with_bar stored_at day \<equiv>
     \<lparr>api_key = None,
      db = store_historical_data stored_at ''AAPL'' [(day, one_bar)] create_tables,
      fetch_calls = 0\<rparr>"

section \<open>Properties of the Series operations\<close>

lemma length_diff: "length (diff xs) = length xs"
  by (cases xs) (simp_all add: diff_def)

lemma length_gains: "length (gains xs) = length xs"
  by (simp add: gains_def length_diff)

lemma length_losses: "length (losses xs) = length xs"
  by (simp add: losses_def length_diff)

lemma length_rolling: "length (rolling n agg xs) = length xs"
  by (simp add: rolling_def)

lemma last_rolling:
  assumes "xs \<noteq> []" and "n \<le> length xs"
  shows "last (rolling n agg xs) = Fin (agg (take n (drop (length xs - n) xs)))"
proof -
  have pos: "0 < length xs" using assms(1) by simp
  have "last (rolling n agg xs) = rolling n agg xs ! (length xs - 1)"
    using pos by (simp add: last_conv_nth length_rolling rolling_def)
  also have "\<dots> = (if Suc (length xs - 1) < n then NaN
                    else Fin (agg (take n (drop (Suc (length xs - 1) - n) xs))))"
    using pos by (simp add: rolling_def)
  also have "\<dots> = Fin (agg (take n (drop (length xs - n) xs)))"
    using pos assms(2) by simp
  finally show ?thesis .
qed

lemma last_map2:
  assumes "length xs = length ys" and "xs \<noteq> []"
  shows "last (map2 f xs ys) = f (last xs) (last ys)"
proof -
  have "ys \<noteq> []" using assms by auto
  then show ?thesis
    using assms by (simp add: last_conv_nth)
qed

lemma gains_nonneg: "x \<in> set (gains xs) \<Longrightarrow> 0 \<le> x"
  by (auto simp: gains_def split: option.splits)

lemma losses_nonneg: "x \<in> set (losses xs) \<Longrightarrow> 0 \<le> x"
  by (auto simp: losses_def split: option.splits)

lemma mean_nonneg: "(\<And>x. x \<in> set xs \<Longrightarrow> 0 \<le> x) \<Longrightarrow> 0 \<le> mean xs"
  by (simp add: mean_def sum_list_nonneg)

lemma avg_gain_nonneg: "0 \<le> avg_gain prices"
  unfolding avg_gain_def
  by (rule mean_nonneg) (meson gains_nonneg in_set_dropD in_set_takeD)

lemma avg_loss_nonneg: "0 \<le> avg_loss prices"
  unfolding avg_loss_def
  by (rule mean_nonneg) (meson losses_nonneg in_set_dropD in_set_takeD)

lemma keeps_index_rolling: "keeps_index (rolling n agg)"
  by (simp add: keeps_index_def length_rolling)

lemma last_gain_mean_exact:
  assumes "15 \<le> length prices"
  shows "last_gain_mean (rolling 14 mean) prices = Fin (avg_gain prices)"
proof -
  have "gains prices \<noteq> []" using assms length_gains [of prices] by auto
  then show ?thesis
    using last_rolling [of "gains prices" 14 mean] assms
    by (simp add: last_gain_mean_def avg_gain_def length_gains)
qed

lemma last_loss_mean_exact:
  assumes "15 \<le> length prices"
  shows "last_loss_mean (rolling 14 mean) prices = Fin (avg_loss prices)"
proof -
  have "losses prices \<noteq> []" using assms length_losses [of prices] by auto
  then show ?thesis
    using last_rolling [of "losses prices" 14 mean] assms
    by (simp add: last_loss_mean_def avg_loss_def length_losses)
qed

lemma last_rsi_series:
  assumes "keeps_index rmean" and "15 \<le> length prices"
  shows "iloc_last (rsi_series rmean prices) =
           Inr (xsub (Fin 100) (xdiv (Fin 100)
                  (xadd (Fin 1)
                     (xdiv (last_gain_mean rmean prices) (last_loss_mean rmean prices)))))"
proof -
  let ?g = "rmean (gains prices)" and ?l = "rmean (losses prices)"
  have ne: "prices \<noteq> []" using assms(2) by auto
  have lg: "length ?g = length prices" and ll: "length ?l = length prices"
    using assms(1) by (simp_all add: keeps_index_def length_gains length_losses)
  have gne: "?g \<noteq> []" using lg ne by auto
  have zne: "map2 xdiv ?g ?l \<noteq> []" using gne lg ll ne by (cases ?g; cases ?l) auto
  have "last (map2 xdiv ?g ?l) = xdiv (last ?g) (last ?l)"
    using last_map2 [of ?g ?l xdiv] lg ll gne by simp
  then show ?thesis
    using zne
    by (simp add: iloc_last_def rsi_series_def Let_def last_map last_gain_mean_def
        last_loss_mean_def)
qed

lemma calculate_rsi_last:
  assumes "keeps_index rmean" and "15 \<le> length prices"
  shows "calculate_rsi rmean prices =
           (if isna (xsub (Fin 100) (xdiv (Fin 100)
                  (xadd (Fin 1)
                     (xdiv (last_gain_mean rmean prices) (last_loss_mean rmean prices)))))
            then Fin 50
            else xsub (Fin 100) (xdiv (Fin 100)
                  (xadd (Fin 1)
                     (xdiv (last_gain_mean rmean prices) (last_loss_mean rmean prices)))))"
  using assms(2) by (simp add: calculate_rsi_def last_rsi_series [OF assms])



section \<open>Claims about the RSI\<close>







text \<open>
  C6 as stated (a zero average loss always gives the neutral 50.0) fails: fifteen closes
  rising by one have no loss in the last 14 periods, every sum involved is a small
  integer, so the rolling means are the exact averages 1 and 0, and the RSI is 100.
\<close>

theorem calculate_rsi_zero_loss_counterexample:
  "15 \<le> length [1, 2, 3, 4, 5, 6, 7, 8, 9, 10, 11, 12, 13, 14, 15 :: real] \<and>
   avg_loss [1, 2, 3, 4, 5, 6, 7, 8, 9, 10, 11, 12, 13, 14, 15] = 0 \<and>
   last_loss_mean (rolling 14 mean) [1, 2, 3, 4, 5, 6, 7, 8, 9, 10, 11, 12, 13, 14, 15] = Fin 0 \<and>
   last_gain_mean (rolling 14 mean) [1, 2, 3, 4, 5, 6, 7, 8, 9, 10, 11, 12, 13, 14, 15] = Fin 1 \<and>
   calculate_rsi (rolling 14 mean) [1, 2, 3, 4, 5, 6, 7, 8, 9, 10, 11, 12, 13, 14, 15] = Fin 100 \<and>
   calculate_rsi (rolling 14 mean) [1, 2, 3, 4, 5, 6, 7, 8, 9, 10, 11, 12, 13, 14, 15] \<noteq> Fin 50"
proof -
  let ?ps = "[1, 2, 3, 4, 5, 6, 7, 8, 9, 10, 11, 12, 13, 14, 15 :: real]"
  have len: "15 \<le> length ?ps" by simp
  have al: "avg_loss ?ps = 0" by (simp add: avg_loss_def losses_def diff_def mean_def)
  have ag: "avg_gain ?ps = 1" by (simp add: avg_gain_def gains_def diff_def mean_def)
  have l: "last_loss_mean (rolling 14 mean) ?ps = Fin 0"
    using last_loss_mean_exact [OF len] al by simp
  have g: "last_gain_mean (rolling 14 mean) ?ps = Fin 1"
    using last_gain_mean_exact [OF len] ag by simp
  have "calculate_rsi (rolling 14 mean) ?ps = Fin 100"
    unfolding calculate_rsi_last [OF keeps_index_rolling len] l g
    by (simp add: xsub_def)
  then show ?thesis using len al l g by simp
qed

text \<open>
  C6, amended.  For every price series with at least 15 bars for which the rolling mean of
  the losses at the last bar, as the library returns it, is zero, the RSI is 100 when the
  returned rolling mean of the gains is not zero, and the neutral 50.0 when that mean is
  zero (or NaN) as well.
\<close>

theorem calculate_rsi_zero_loss:
  assumes "keeps_index rmean" and "15 \<le> length prices"
    and "last_loss_mean rmean prices = Fin 0"
  shows "calculate_rsi rmean prices =
           (if last_gain_mean rmean prices = Fin 0 \<or> last_gain_mean rmean prices = NaN
            then Fin 50 else Fin 100)"
  unfolding calculate_rsi_last [OF assms(1,2)] assms(3)
  by (cases "last_gain_mean rmean prices") (simp_all add: xsub_def)

theorem calculate_rsi_zero_loss_witness:
  "keeps_index (rolling 14 mean) \<and>
   15 \<le> length [7, 7, 7, 7, 7, 7, 7, 7, 7, 7, 7, 7, 7, 7, 7, 9 :: real] \<and>
   last_loss_mean (rolling 14 mean) [7, 7, 7, 7, 7, 7, 7, 7, 7, 7, 7, 7, 7, 7, 7, 9] = Fin 0 \<and>
   last_gain_mean (rolling 14 mean) [7, 7, 7, 7, 7, 7, 7, 7, 7, 7, 7, 7, 7, 7, 7, 9] = Fin (1 / 7) \<and>
   calculate_rsi (rolling 14 mean) [7, 7, 7, 7, 7, 7, 7, 7, 7, 7, 7, 7, 7, 7, 7, 9] = Fin 100 \<and>
   15 \<le> length [7, 7, 7, 7, 7, 7, 7, 7, 7, 7, 7, 7, 7, 7, 7 :: real] \<and>
   last_loss_mean (rolling 14 mean) [7, 7, 7, 7, 7, 7, 7, 7, 7, 7, 7, 7, 7, 7, 7] = Fin 0 \<and>
   last_gain_mean (rolling 14 mean) [7, 7, 7, 7, 7, 7, 7, 7, 7, 7, 7, 7, 7, 7, 7] = Fin 0 \<and>
   calculate_rsi (rolling 14 mean) [7, 7, 7, 7, 7, 7, 7, 7, 7, 7, 7, 7, 7, 7, 7] = Fin 50"
proof -
  let ?ps = "[7, 7, 7, 7, 7, 7, 7, 7, 7, 7, 7, 7, 7, 7, 7, 9 :: real]"
  let ?qs = "[7, 7, 7, 7, 7, 7, 7, 7, 7, 7, 7, 7, 7, 7, 7 :: real]"
  note k = keeps_index_rolling [of 14 mean]
  have len: "15 \<le> length ?ps" by simp
  have l: "last_loss_mean (rolling 14 mean) ?ps = Fin 0"
    unfolding last_loss_mean_exact [OF len]
    by (simp add: avg_loss_def losses_def diff_def mean_def)
  have g: "last_gain_mean (rolling 14 mean) ?ps = Fin (1 / 7)"
    unfolding last_gain_mean_exact [OF len]
    by (simp add: avg_gain_def gains_def diff_def mean_def)
  have a: "calculate_rsi (rolling 14 mean) ?ps = Fin 100"
    using calculate_rsi_zero_loss [OF k len l] g by simp
  have qlen: "15 \<le> length ?qs" by simp
  have ql: "last_loss_mean (rolling 14 mean) ?qs = Fin 0"
    unfolding last_loss_mean_exact [OF qlen]
    by (simp add: avg_loss_def losses_def diff_def mean_def)
  have qg: "last_gain_mean (rolling 14 mean) ?qs = Fin 0"
    unfolding last_gain_mean_exact [OF qlen]
    by (simp add: avg_gain_def gains_def diff_def mean_def)
  have b: "calculate_rsi (rolling 14 mean) ?qs = Fin 50"
    using calculate_rsi_zero_loss [OF k qlen ql] qg by simp
  show ?thesis using k len l g a qlen ql qg b by simp
qed

section \<open>Claims about the indicator engine\<close>

text \<open>
  C8.  On an empty Series the indicator computation does not raise, but it does not return
  the neutral defaults either: the Bollinger-band fallback and the support/resistance
  fallback both read the last close of the empty Series, the IndexError escapes their own
  handlers, and \<^verbatim>\<open>_technical_analysis\<close> returns its error dict with no indicator at all.
\<close>

theorem technical_analysis_empty:
  "technical_analysis rmean [] current_price = Inl IndexError \<and>
   calculate_bollinger_bands [] = Inl IndexError \<and>
   find_support_resistance [] = Inl IndexError \<and>
   sma 20 [] current_price = Inr (Fin current_price) \<and>
   calculate_rsi rmean [] = Fin 50 \<and>
   calculate_macd [] = (Fin 0, Fin 0, Fin 0)"
  by (simp add: technical_analysis_def calculate_bollinger_bands_def bb_body_def
      bb_default_def find_support_resistance_def sr_body_def sma_def calculate_rsi_def
      calculate_macd_def pybind_def iloc_last_def column_def rolling_def)

section \<open>Properties of the recommendation engine\<close>

lemma delta_sum_add_factor:
  "delta_sum (snd (add_factor d t st)) = delta_sum (snd st) + spec_factor_delta t"
  by (simp add: add_factor_def delta_sum_def)

lemma fst_add_factor: "fst (add_factor d t st) = fst st + d"
  by (simp add: add_factor_def)

lemma technical_step_sum:
  assumes "technical_step technical st = Inr st'" and "delta_sum (snd st) = fst st"
  shows "delta_sum (snd st') = fst st'"
proof (cases st)
  case (Pair sc fs)
  then show ?thesis
    using assms
    by (auto simp: technical_step_def pybind_def add_factor_def delta_sum_def
        spec_factor_delta_def split: option.splits pyval.splits sum.splits if_splits)
qed

lemma trend_step_sum:
  "delta_sum (snd st) = fst st \<Longrightarrow> delta_sum (snd (trend_step trend st)) = fst (trend_step trend st)"
  by (simp add: trend_step_def delta_sum_add_factor fst_add_factor spec_factor_delta_def)

lemma news_step_sum:
  "delta_sum (snd st) = fst st \<Longrightarrow> delta_sum (snd (news_step news st)) = fst (news_step news st)"
  by (simp add: news_step_def Let_def delta_sum_add_factor fst_add_factor spec_factor_delta_def)

lemma risk_step_sum:
  "delta_sum (snd st) = fst st \<Longrightarrow> delta_sum (snd (risk_step risk st)) = fst (risk_step risk st)"
  by (simp add: risk_step_def Let_def delta_sum_add_factor fst_add_factor spec_factor_delta_def)

lemma generate_recommendation_cases:
  "generate_recommendation technical trend volume risk news =
     (case technical_step technical (0, []) of
        Inl e \<Rightarrow> \<lparr>recommendation = ''hold'', action = ''HOLD'', confidence = 50,
                   score = None, factors = None, reasoning = None, error = Some e\<rparr>
      | Inr st1 \<Rightarrow>
          (let st = risk_step risk (news_step news (trend_step trend st1))
           in \<lparr>recommendation = fst (tier_of_score (fst st)),
               action = fst (snd (tier_of_score (fst st))),
               confidence = py_round1 (snd (snd (tier_of_score (fst st)))),
               score = Some (fst st), factors = Some (snd st),
               reasoning = Some (generate_reasoning (fst (tier_of_score (fst st))) (snd st)),
               error = None\<rparr>))"
  by (simp add: generate_recommendation_def recommendation_body_def pybind_def Let_def
      split: sum.splits prod.splits)

lemma fst_trend_step:
  "fst (trend_step trend st) = fst st + (if dict_get trend ''trend'' PNone = PStr ''bullish'' then 2 else 0)
      + (if dict_get trend ''trend'' PNone = PStr ''bearish'' then - 2 else 0)"
  by (simp add: trend_step_def fst_add_factor)

lemma fst_news_step:
  "fst (news_step news st) = fst st
      + (if dict_get news ''overall_sentiment'' (PStr ''neutral'') = PStr ''positive'' then 1 else 0)
      + (if dict_get news ''overall_sentiment'' (PStr ''neutral'') = PStr ''negative'' then - 1 else 0)"
  by (simp add: news_step_def Let_def fst_add_factor)

lemma fst_risk_step:
  "fst (risk_step risk st) = fst st
      + (if dict_get risk ''risk_level'' (PStr ''medium'') = PStr ''high'' then - 1 else 0)"
  by (simp add: risk_step_def Let_def fst_add_factor)

lemma technical_step_numeric:
  assumes "map_of technical ''indicators'' = Some (PDict ind)"
    and "dict_get ind ''rsi'' (PNum 50) = PNum r"
    and "dict_get ind ''macd'' (PNum 0) = PNum m"
    and "dict_get ind ''macd_signal'' (PNum 0) = PNum s"
  shows "\<exists>fs. technical_step technical (sc, fs0) =
           Inr (sc + (if r < 30 then 2 else 0) + (if r > 70 then - 2 else 0) +
                (if m > s then 1 else 0) + (if m \<le> s then - 1 else 0), fs)"
  using assms
  by (simp add: technical_step_def pybind_def py_lt_def add_factor_def)

text \<open>
  C1.  The score is the sum of the deltas of the table rows whose conditions hold: with
  numeric indicator values all nine rows are considered; with a technical input that has
  no indicators the RSI and MACD rows do not apply.  Whenever a score is returned, mapping
  each returned factor text back to its table delta and summing gives the same score.
\<close>

theorem generate_recommendation_score:
  "(map_of technical ''indicators'' = Some (PDict ind) \<and>
    dict_get ind ''rsi'' (PNum 50) = PNum r \<and>
    dict_get ind ''macd'' (PNum 0) = PNum m \<and>
    dict_get ind ''macd_signal'' (PNum 0) = PNum s \<longrightarrow>
    score (generate_recommendation technical trend volume risk news) =
      Some (spec_table_score (Some (r, m, s)) (dict_get trend ''trend'' PNone)
              (dict_get news ''overall_sentiment'' (PStr ''neutral''))
              (dict_get risk ''risk_level'' (PStr ''medium'')))) \<and>
   (map_of technical ''indicators'' = None \<longrightarrow>
    score (generate_recommendation technical trend volume risk news) =
      Some (spec_table_score None (dict_get trend ''trend'' PNone)
              (dict_get news ''overall_sentiment'' (PStr ''neutral''))
              (dict_get risk ''risk_level'' (PStr ''medium'')))) \<and>
   (\<forall>sc. score (generate_recommendation technical trend volume risk news) = Some sc \<longrightarrow>
      (\<exists>fs. factors (generate_recommendation technical trend volume risk news) = Some fs \<and>
            sum_list (map spec_factor_delta fs) = sc))"
proof (intro conjI impI allI)
  assume a: "map_of technical ''indicators'' = Some (PDict ind) \<and>
    dict_get ind ''rsi'' (PNum 50) = PNum r \<and>
    dict_get ind ''macd'' (PNum 0) = PNum m \<and>
    dict_get ind ''macd_signal'' (PNum 0) = PNum s"
  then obtain fs where "technical_step technical (0, []) =
           Inr (0 + (if r < 30 then 2 else 0) + (if r > 70 then - 2 else 0) +
                (if m > s then 1 else 0) + (if m \<le> s then - 1 else 0), fs)"
    using technical_step_numeric [of technical ind r m s 0 "[]"] by blast
  then show "score (generate_recommendation technical trend volume risk news) =
      Some (spec_table_score (Some (r, m, s)) (dict_get trend ''trend'' PNone)
              (dict_get news ''overall_sentiment'' (PStr ''neutral''))
              (dict_get risk ''risk_level'' (PStr ''medium'')))"
    by (simp add: generate_recommendation_cases Let_def fst_risk_step fst_news_step
        fst_trend_step spec_table_score_def)
next
  assume "map_of technical ''indicators'' = None"
  then have "technical_step technical (0, []) = Inr (0, [])"
    by (simp add: technical_step_def)
  then show "score (generate_recommendation technical trend volume risk news) =
      Some (spec_table_score None (dict_get trend ''trend'' PNone)
              (dict_get news ''overall_sentiment'' (PStr ''neutral''))
              (dict_get risk ''risk_level'' (PStr ''medium'')))"
    by (simp add: generate_recommendation_cases Let_def fst_risk_step fst_news_step
        fst_trend_step spec_table_score_def)
next
  fix sc
  assume sc: "score (generate_recommendation technical trend volume risk news) = Some sc"
  show "\<exists>fs. factors (generate_recommendation technical trend volume risk news) = Some fs \<and>
            sum_list (map spec_factor_delta fs) = sc"
  proof (cases "technical_step technical (0, [])")
    case (Inl e)
    then show ?thesis using sc by (simp add: generate_recommendation_cases)
  next
    case (Inr st1)
    have "delta_sum (snd st1) = fst st1"
      using technical_step_sum [OF Inr] by (simp add: delta_sum_def)
    then have "delta_sum (snd (risk_step risk (news_step news (trend_step trend st1)))) =
               fst (risk_step risk (news_step news (trend_step trend st1)))"
      by (intro risk_step_sum news_step_sum trend_step_sum)
    then show ?thesis
      using sc Inr by (simp add: generate_recommendation_cases Let_def delta_sum_def)
  qed
qed

theorem generate_recommendation_score_witness:
  "map_of [(''indicators'', PDict [(''rsi'', PNum 25), (''macd'', PNum 1), (''macd_signal'', PNum 0)])]
      ''indicators'' = Some (PDict [(''rsi'', PNum 25), (''macd'', PNum 1), (''macd_signal'', PNum 0)]) \<and>
   dict_get [(''rsi'', PNum 25), (''macd'', PNum 1), (''macd_signal'', PNum 0)] ''rsi'' (PNum 50) = PNum 25 \<and>
   dict_get [(''rsi'', PNum 25), (''macd'', PNum 1), (''macd_signal'', PNum 0)] ''macd'' (PNum 0) = PNum 1 \<and>
   dict_get [(''rsi'', PNum 25), (''macd'', PNum 1), (''macd_signal'', PNum 0)] ''macd_signal'' (PNum 0) = PNum 0 \<and>
   score (generate_recommendation
           [(''indicators'', PDict [(''rsi'', PNum 25), (''macd'', PNum 1), (''macd_signal'', PNum 0)])]
           [(''trend'', PStr ''bullish'')] [] [(''risk_level'', PStr ''high'')]
           [(''overall_sentiment'', PStr ''positive'')]) = Some 5 \<and>
   (\<exists>fs. factors (generate_recommendation
           [(''indicators'', PDict [(''rsi'', PNum 25), (''macd'', PNum 1), (''macd_signal'', PNum 0)])]
           [(''trend'', PStr ''bullish'')] [] [(''risk_level'', PStr ''high'')]
           [(''overall_sentiment'', PStr ''positive'')]) = Some fs \<and>
         sum_list (map spec_factor_delta fs) = 5) \<and>
   map_of ([] :: pydict) ''indicators'' = None \<and>
   score (generate_recommendation [] [(''trend'', PStr ''bearish'')] [] [] []) = Some (- 2)"
proof -
  have a: "map_of [(''indicators'', PDict [(''rsi'', PNum 25), (''macd'', PNum 1), (''macd_signal'', PNum 0)])]
      ''indicators'' = Some (PDict [(''rsi'', PNum 25), (''macd'', PNum 1), (''macd_signal'', PNum 0)]) \<and>
   dict_get [(''rsi'', PNum 25), (''macd'', PNum 1), (''macd_signal'', PNum 0)] ''rsi'' (PNum 50) = PNum 25 \<and>
   dict_get [(''rsi'', PNum 25), (''macd'', PNum 1), (''macd_signal'', PNum 0)] ''macd'' (PNum 0) = PNum 1 \<and>
   dict_get [(''rsi'', PNum 25), (''macd'', PNum 1), (''macd_signal'', PNum 0)] ''macd_signal'' (PNum 0) = PNum 0 \<and>
   score (generate_recommendation
           [(''indicators'', PDict [(''rsi'', PNum 25), (''macd'', PNum 1), (''macd_signal'', PNum 0)])]
           [(''trend'', PStr ''bullish'')] [] [(''risk_level'', PStr ''high'')]
           [(''overall_sentiment'', PStr ''positive'')]) = Some 5 \<and>
   (\<exists>fs. factors (generate_recommendation
           [(''indicators'', PDict [(''rsi'', PNum 25), (''macd'', PNum 1), (''macd_signal'', PNum 0)])]
           [(''trend'', PStr ''bullish'')] [] [(''risk_level'', PStr ''high'')]
           [(''overall_sentiment'', PStr ''positive'')]) = Some fs \<and>
         sum_list (map spec_factor_delta fs) = 5)"
    using generate_recommendation_score
    [of "[(''indicators'', PDict [(''rsi'', PNum 25), (''macd'', PNum 1), (''macd_signal'', PNum 0)])]"
        "[(''rsi'', PNum 25), (''macd'', PNum 1), (''macd_signal'', PNum 0)]" 25 1 0
        "[(''trend'', PStr ''bullish'')]" "[]" "[(''risk_level'', PStr ''high'')]"
        "[(''overall_sentiment'', PStr ''positive'')]"]
    by (simp add: dict_get_def spec_table_score_def)
  have b: "map_of ([] :: pydict) ''indicators'' = None \<and>
   score (generate_recommendation [] [(''trend'', PStr ''bearish'')] [] [] []) = Some (- 2)"
    using generate_recommendation_score
      [of "[]" "[]" 0 0 0 "[(''trend'', PStr ''bearish'')]" "[]" "[]" "[]"]
    by (simp add: dict_get_def spec_table_score_def)
  show ?thesis using a b by blast
qed

lemma py_round1_third: "py_round1 (100 / 3) = 333 / 10"
  by (simp add: py_round1_def Let_def)

lemma py_round1_two_thirds: "py_round1 (200 / 3) = 667 / 10"
  by (simp add: py_round1_def Let_def)

text \<open>
  C2 as stated (confidence is exactly \<open>min(score/3 \<times> 100, 80)\<close> in the buy tier) fails:
  the returned confidence is rounded to one decimal, so a score of 1 gives 33.3 and not
  100/3.
\<close>

theorem generate_recommendation_confidence_counterexample:
  "score (generate_recommendation [] [] [] [] [(''overall_sentiment'', PStr ''positive'')]) = Some 1 \<and>
   recommendation (generate_recommendation [] [] [] [] [(''overall_sentiment'', PStr ''positive'')]) = ''buy'' \<and>
   confidence (generate_recommendation [] [] [] [] [(''overall_sentiment'', PStr ''positive'')]) = 333 / 10 \<and>
   confidence (generate_recommendation [] [] [] [] [(''overall_sentiment'', PStr ''positive'')])
     \<noteq> min (1 / 3 * 100) 80"
  by (simp add: generate_recommendation_cases technical_step_def trend_step_def news_step_def
      risk_step_def dict_get_def add_factor_def tier_of_score_def Let_def py_round1_third)

text \<open>The engine raises exactly when the technical input has the key \<open>indicators\<close> and
  its value is not a dict, or the RSI is not a number, or MACD and signal cannot be
  compared.\<close>

lemma technical_step_raises_iff:
  "(\<exists>e. technical_step technical st = Inl e) \<longleftrightarrow>
   (\<exists>v. map_of technical ''indicators'' = Some v \<and>
        (case v of
           PDict ind \<Rightarrow>
             (\<forall>r. dict_get ind ''rsi'' (PNum 50) \<noteq> PNum r) \<or>
             (\<forall>ok. py_gt (dict_get ind ''macd'' (PNum 0))
                          (dict_get ind ''macd_signal'' (PNum 0)) \<noteq> Inr ok)
         | _ \<Rightarrow> True))"
proof (cases "map_of technical ''indicators''")
  case None
  then show ?thesis by (simp add: technical_step_def)
next
  case (Some v)
  show ?thesis
  proof (cases v)
    case (PDict ind)
    show ?thesis
    proof (cases "dict_get ind ''rsi'' (PNum 50)")
      case (PNum r)
      then show ?thesis
        using Some PDict
        by (cases "py_gt (dict_get ind ''macd'' (PNum 0)) (dict_get ind ''macd_signal'' (PNum 0))")
           (auto simp: technical_step_def pybind_def py_lt_def)
    qed (use Some PDict in \<open>auto simp: technical_step_def pybind_def py_lt_def\<close>)
  qed (use Some in \<open>auto simp: technical_step_def\<close>)
qed

lemma scored_fields:
  assumes "score (generate_recommendation technical trend volume risk news) = Some sc"
  shows "recommendation (generate_recommendation technical trend volume risk news) =
           fst (tier_of_score sc)"
    and "action (generate_recommendation technical trend volume risk news) =
           fst (snd (tier_of_score sc))"
    and "confidence (generate_recommendation technical trend volume risk news) =
           py_round1 (snd (snd (tier_of_score sc)))"
  using assms
  by (auto simp: generate_recommendation_cases Let_def split: sum.splits)

lemma py_round1_60: "py_round1 60 = 60"
  by (simp add: py_round1_def Let_def)

text \<open>
  C2, amended.  For every input on which a score is returned, tier and action follow from
  the score as the claim says, and the confidence is the claim's value rounded to one
  decimal place: 33.3 at a score of 1 or -1, 66.7 at 2 or -2, and 60 in the hold tier.
\<close>

theorem generate_recommendation_tier:
  assumes "score (generate_recommendation technical trend volume risk news) = Some sc"
  shows "recommendation (generate_recommendation technical trend volume risk news) =
           (if sc \<ge> 3 then ''strong_buy'' else if sc \<ge> 1 then ''buy''
            else if sc \<le> - 3 then ''strong_sell'' else if sc \<le> - 1 then ''sell''
            else ''hold'') \<and>
         action (generate_recommendation technical trend volume risk news) =
           (if sc \<ge> 1 then ''BUY'' else if sc \<le> - 1 then ''SELL'' else ''HOLD'') \<and>
         confidence (generate_recommendation technical trend volume risk news) =
           (if sc \<ge> 3 then py_round1 (min (of_int sc / 5 * 100) 95)
            else if sc \<ge> 1 then py_round1 (min (of_int sc / 3 * 100) 80)
            else if sc \<le> - 3 then py_round1 (min (of_int \<bar>sc\<bar> / 5 * 100) 95)
            else if sc \<le> - 1 then py_round1 (min (of_int \<bar>sc\<bar> / 3 * 100) 80)
            else 60) \<and>
         (sc = 1 \<or> sc = - 1 \<longrightarrow>
            confidence (generate_recommendation technical trend volume risk news) = 333 / 10) \<and>
         (sc = 2 \<or> sc = - 2 \<longrightarrow>
            confidence (generate_recommendation technical trend volume risk news) = 667 / 10)"
proof -
  note f = scored_fields [OF assms]
  have t: "recommendation (generate_recommendation technical trend volume risk news) =
           (if sc \<ge> 3 then ''strong_buy'' else if sc \<ge> 1 then ''buy''
            else if sc \<le> - 3 then ''strong_sell'' else if sc \<le> - 1 then ''sell''
            else ''hold'')"
    unfolding f(1) tier_of_score_def by simp
  have a: "action (generate_recommendation technical trend volume risk news) =
           (if sc \<ge> 1 then ''BUY'' else if sc \<le> - 1 then ''SELL'' else ''HOLD'')"
    unfolding f(2) tier_of_score_def by simp
  have c: "confidence (generate_recommendation technical trend volume risk news) =
           (if sc \<ge> 3 then py_round1 (min (of_int sc / 5 * 100) 95)
            else if sc \<ge> 1 then py_round1 (min (of_int sc / 3 * 100) 80)
            else if sc \<le> - 3 then py_round1 (min (of_int \<bar>sc\<bar> / 5 * 100) 95)
            else if sc \<le> - 1 then py_round1 (min (of_int \<bar>sc\<bar> / 3 * 100) 80)
            else 60)"
    unfolding f(3) tier_of_score_def by (simp add: py_round1_60)
  have c1: "confidence (generate_recommendation technical trend volume risk news) = 333 / 10"
    if "sc = 1 \<or> sc = - 1"
    using that unfolding f(3) tier_of_score_def
    by (elim disjE) (simp_all add: py_round1_third)
  have c2: "confidence (generate_recommendation technical trend volume risk news) = 667 / 10"
    if "sc = 2 \<or> sc = - 2"
    using that unfolding f(3) tier_of_score_def
    by (elim disjE) (simp_all add: py_round1_two_thirds)
  show ?thesis using t a c c1 c2 by blast
qed

lemma score_bullish_only:
  "score (generate_recommendation [] [(''trend'', PStr ''bullish'')] [] [] []) = Some 2"
  by (simp add: generate_recommendation_cases technical_step_def trend_step_def news_step_def
      risk_step_def dict_get_def add_factor_def Let_def)

lemma score_high_risk_only:
  "score (generate_recommendation [] [] [] [(''risk_level'', PStr ''high'')] []) = Some (- 1)"
  by (simp add: generate_recommendation_cases technical_step_def trend_step_def news_step_def
      risk_step_def dict_get_def add_factor_def Let_def)

theorem generate_recommendation_tier_witness:
  "score (generate_recommendation [] [(''trend'', PStr ''bullish'')] [] [] []) = Some 2 \<and>
   recommendation (generate_recommendation [] [(''trend'', PStr ''bullish'')] [] [] []) = ''buy'' \<and>
   action (generate_recommendation [] [(''trend'', PStr ''bullish'')] [] [] []) = ''BUY'' \<and>
   confidence (generate_recommendation [] [(''trend'', PStr ''bullish'')] [] [] []) = 667 / 10 \<and>
   score (generate_recommendation [] [] [] [(''risk_level'', PStr ''high'')] []) = Some (- 1) \<and>
   recommendation (generate_recommendation [] [] [] [(''risk_level'', PStr ''high'')] []) = ''sell'' \<and>
   action (generate_recommendation [] [] [] [(''risk_level'', PStr ''high'')] []) = ''SELL'' \<and>
   confidence (generate_recommendation [] [] [] [(''risk_level'', PStr ''high'')] []) = 333 / 10"
  using generate_recommendation_tier [OF score_bullish_only] score_bullish_only
    generate_recommendation_tier [OF score_high_risk_only] score_high_risk_only
  by simp

text \<open>
  C3 as stated (confidence 0 on an internal error) fails: with an RSI of \<open>None\<close> the
  comparison \<open>rsi < 30\<close> raises TypeError, and the handler returns HOLD with confidence 50.
\<close>

theorem generate_recommendation_error_counterexample:
  "error (generate_recommendation [(''indicators'', PDict [(''rsi'', PNone)])] [] [] [] []) =
     Some TypeError \<and>
   action (generate_recommendation [(''indicators'', PDict [(''rsi'', PNone)])] [] [] [] []) =
     ''HOLD'' \<and>
   confidence (generate_recommendation [(''indicators'', PDict [(''rsi'', PNone)])] [] [] [] []) =
     50 \<and>
   confidence (generate_recommendation [(''indicators'', PDict [(''rsi'', PNone)])] [] [] [] [])
     \<noteq> 0"
  by (simp add: generate_recommendation_cases technical_step_def dict_get_def pybind_def
      py_lt_def)

text \<open>
  C3, amended.  If an exception is raised inside the recommendation engine, the engine
  returns (it does not raise) the tier hold, the action HOLD, the confidence 50 and the
  error embedded; score, factors and reasoning are absent.
\<close>

theorem generate_recommendation_fail_soft:
  assumes "recommendation_body technical trend volume risk news = Inl e"
  shows "generate_recommendation technical trend volume risk news =
           \<lparr>recommendation = ''hold'', action = ''HOLD'', confidence = 50,
            score = None, factors = None, reasoning = None, error = Some e\<rparr>"
  using assms by (simp add: generate_recommendation_def)

lemma body_not_a_dict:
  "recommendation_body [(''indicators'', PStr ''n/a'')] [] [] [] [] = Inl AttributeError"
  by (simp add: recommendation_body_def technical_step_def pybind_def)

theorem generate_recommendation_fail_soft_witness:
  "recommendation_body [(''indicators'', PStr ''n/a'')] [] [] [] [] = Inl AttributeError \<and>
   generate_recommendation [(''indicators'', PStr ''n/a'')] [] [] [] [] =
     \<lparr>recommendation = ''hold'', action = ''HOLD'', confidence = 50,
      score = None, factors = None, reasoning = None, error = Some AttributeError\<rparr>"
  using generate_recommendation_fail_soft [OF body_not_a_dict] body_not_a_dict by simp

section \<open>Properties of the sentiment aggregation\<close>

lemma classify_sentiment_update [simp]:
  "classify (a(''sentiment'' \<mapsto> s)) = classify a"
  by (simp add: classify_def positive_score_def negative_score_def article_text_def article_get_def)

lemma sentiment_loop_store:
  "fst (sentiment_loop articles h scores) a =
     (if a \<in> set articles then (h a)(''sentiment'' \<mapsto> fst (classify (h a))) else h a)"
proof (induction articles arbitrary: h scores)
  case Nil
  then show ?case by simp
next
  case (Cons x rest)
  show ?case
    by (auto simp: Cons.IH)
qed

lemma sentiment_loop_scores:
  "snd (sentiment_loop articles h scores) = scores @ map (\<lambda>a. snd (classify (h a))) articles"
proof (induction articles arbitrary: h scores)
  case Nil
  then show ?case by simp
next
  case (Cons x rest)
  show ?case
    by (simp add: Cons.IH)
qed


lemma snd_analyze_news_sentiment:
  "articles \<noteq> [] \<Longrightarrow>
   snd (analyze_news_sentiment articles h) = fst (sentiment_loop articles h [])"
  by (simp add: analyze_news_sentiment_def Let_def split: prod.splits)

text \<open>
  C7.  On an empty article list the aggregation returns its explicit default with
  overall_sentiment neutral and confidence 0, but that dict has no key sentiment_score
  (nor articles_analyzed).  The caller's own default for an empty list carries
  sentiment_score 5.0 and no confidence.
\<close>

theorem analyze_news_sentiment_empty:
  "analyze_news_sentiment [] h =
     (\<lparr>overall_sentiment = ''neutral'', positive_count = 0, negative_count = 0,
       neutral_count = 0, sentiment_confidence = 0, articles_analyzed = None,
       sentiment_score = None\<rparr>, h) \<and>
   ns_sentiment_score (fst (get_stock_news_sentiment [] h)) = 5 \<and>
   ns_confidence (fst (get_stock_news_sentiment [] h)) = None"
  by (simp add: analyze_news_sentiment_def get_stock_news_sentiment_def no_news_def)

text \<open>
  C10.  For every non-empty article list the aggregation writes into its input: after the
  call each listed article has the key sentiment set to positive, negative or neutral
  according to the sign of its keyword score, every other key of every listed article is
  as before, and articles that are not in the list are untouched.
\<close>

theorem analyze_news_sentiment_mutates:
  assumes "articles \<noteq> []"
  shows "(\<forall>a \<in> set articles.
            snd (analyze_news_sentiment articles h) a ''sentiment'' =
              Some (if positive_score (h a) > negative_score (h a) then ''positive''
                    else if negative_score (h a) > positive_score (h a) then ''negative''
                    else ''neutral'') \<and>
            (\<forall>k. k \<noteq> ''sentiment'' \<longrightarrow>
                 snd (analyze_news_sentiment articles h) a k = h a k)) \<and>
         (\<forall>a. a \<notin> set articles \<longrightarrow> snd (analyze_news_sentiment articles h) a = h a)"
  using assms
  by (simp add: snd_analyze_news_sentiment sentiment_loop_store classify_def)

theorem analyze_news_sentiment_mutates_witness:
  "[0, 1] \<noteq> ([] :: nat list) \<and>
   snd (analyze_news_sentiment [0, 1]
          ((\<lambda>_. Map.empty)(0 := [''title'' \<mapsto> ''Profit UP''],
                             1 := [''title'' \<mapsto> ''Crash'', ''link'' \<mapsto> ''x'']))) 0 ''sentiment''
     = Some ''positive'' \<and>
   snd (analyze_news_sentiment [0, 1]
          ((\<lambda>_. Map.empty)(0 := [''title'' \<mapsto> ''Profit UP''],
                             1 := [''title'' \<mapsto> ''Crash'', ''link'' \<mapsto> ''x'']))) 1 ''sentiment''
     = Some ''negative'' \<and>
   snd (analyze_news_sentiment [0, 1]
          ((\<lambda>_. Map.empty)(0 := [''title'' \<mapsto> ''Profit UP''],
                             1 := [''title'' \<mapsto> ''Crash'', ''link'' \<mapsto> ''x'']))) 1 ''link''
     = Some ''x'' \<and>
   snd (analyze_news_sentiment [0, 1]
          ((\<lambda>_. Map.empty)(0 := [''title'' \<mapsto> ''Profit UP''],
                             1 := [''title'' \<mapsto> ''Crash'', ''link'' \<mapsto> ''x'']))) 2
     = Map.empty"
proof -
  let ?h = "(\<lambda>_. Map.empty)(0 := [''title'' \<mapsto> ''Profit UP''],
                             1 := [''title'' \<mapsto> ''Crash'', ''link'' \<mapsto> ''x'']) :: store"
  have p0: "positive_score (?h 0) = 2" and n0: "negative_score (?h 0) = 0"
    by (simp_all add: positive_score_def negative_score_def article_text_def article_get_def
        lower_def lower_char_def positive_keywords_def negative_keywords_def)
  have p1: "positive_score (?h 1) = 0" and n1: "negative_score (?h 1) = 1"
    by (simp_all add: positive_score_def negative_score_def article_text_def article_get_def
        lower_def lower_char_def positive_keywords_def negative_keywords_def)
  have ne: "[0, 1] \<noteq> ([] :: nat list)" by simp
  note t = analyze_news_sentiment_mutates [OF ne, of ?h]
  have a: "snd (analyze_news_sentiment [0, 1] ?h) 0 ''sentiment'' = Some ''positive''"
    using t p0 n0 by simp
  have b: "snd (analyze_news_sentiment [0, 1] ?h) 1 ''sentiment'' = Some ''negative''"
    using t p1 n1 by simp
  have c: "snd (analyze_news_sentiment [0, 1] ?h) 1 ''link'' = Some ''x''"
    using t by simp
  have d: "snd (analyze_news_sentiment [0, 1] ?h) 2 = Map.empty"
    using t by simp
  show ?thesis using ne a b c d by simp
qed

section \<open>Properties of the cache\<close>

lemma rows_insert_or_replace:
  "historical_data (insert_or_replace s day b d) =
     filter (\<lambda>r. row_key r \<noteq> (s, day)) (historical_data d) @
     [\<lparr>hr_id = next_id d, hr_symbol = s, hr_date = day,
       hr_open_price = Open b, hr_high = High b, hr_low = Low b,
       hr_close_price = Close b, hr_volume = Volume b\<rparr>]"
  by (simp add: insert_or_replace_def row_key_def)

lemma unique_keys_insert_or_replace:
  "unique_keys d \<Longrightarrow> unique_keys (insert_or_replace s day b d)"
  by (auto simp: unique_keys_def rows_insert_or_replace distinct_map_filter row_key_def)

lemma map_of_filter_key:
  "map_of (map (\<lambda>r. (row_key r, row_bar r)) (filter (\<lambda>r. row_key r \<noteq> k) rows)) =
   (map_of (map (\<lambda>r. (row_key r, row_bar r)) rows))(k := None)"
  by (induction rows) (auto simp: fun_eq_iff)

lemma bars_of_insert_or_replace:
  "bars_of (insert_or_replace s day b d) = (bars_of d)((s, day) \<mapsto> b)"
proof -
  let ?e = "\<lambda>r. (row_key r, row_bar r)"
  let ?new = "\<lparr>hr_id = next_id d, hr_symbol = s, hr_date = day,
       hr_open_price = Open b, hr_high = High b, hr_low = Low b,
       hr_close_price = Close b, hr_volume = Volume b\<rparr>"
  have new: "?e ?new = ((s, day), b)"
    by (simp add: row_key_def row_bar_def)
  have "bars_of (insert_or_replace s day b d) =
          map_of [?e ?new] ++
          map_of (map ?e (filter (\<lambda>r. row_key r \<noteq> (s, day)) (historical_data d)))"
    unfolding bars_of_def rows_insert_or_replace by (simp only: map_append map_of_append list.map)
  also have "\<dots> = map_of [((s, day), b)] ++ (bars_of d)((s, day) := None)"
    by (simp only: new map_of_filter_key bars_of_def)
  also have "\<dots> = (bars_of d)((s, day) \<mapsto> b)"
    by (auto simp: fun_eq_iff map_add_def split: option.splits)
  finally show ?thesis .
qed

lemma unique_keys_fold:
  "unique_keys d \<Longrightarrow> unique_keys (fold (\<lambda>row. insert_or_replace s (fst row) (snd row)) df d)"
  by (induction df arbitrary: d) (simp_all add: unique_keys_insert_or_replace)

lemma bars_of_fold:
  "bars_of (fold (\<lambda>row. insert_or_replace s (fst row) (snd row)) df d) =
     fold (\<lambda>row m. m((s, fst row) \<mapsto> snd row)) df (bars_of d)"
  by (induction df arbitrary: d) (simp_all add: bars_of_insert_or_replace)

lemma rows_store:
  "historical_data (store_historical_data now s df d) =
     historical_data (fold (\<lambda>row. insert_or_replace s (fst row) (snd row)) df d)"
  by (simp add: store_historical_data_def Let_def)

lemma unique_keys_store:
  "unique_keys d \<Longrightarrow> unique_keys (store_historical_data now s df d)"
  using unique_keys_fold [of d s df] by (simp add: unique_keys_def rows_store)

lemma bars_of_store:
  "bars_of (store_historical_data now s df d) =
     fold (\<lambda>row m. m((s, fst row) \<mapsto> snd row)) df (bars_of d)"
  using bars_of_fold [of s df d] by (simp add: bars_of_def rows_store)

lemma fold_upd_map_add:
  "fold (\<lambda>row m. m((s, fst row) \<mapsto> snd row)) df m =
     m ++ map_of (rev (map (\<lambda>row. ((s, fst row), snd row)) df))"
proof (induction df arbitrary: m)
  case Nil
  then show ?case by simp
next
  case (Cons row df)
  let ?M = "map_of (rev (map (\<lambda>row. ((s, fst row), snd row)) df))"
  have "fold (\<lambda>row m. m((s, fst row) \<mapsto> snd row)) (row # df) m =
          m((s, fst row) \<mapsto> snd row) ++ ?M"
    by (simp only: fold.simps o_apply Cons.IH)
  also have "\<dots> = m ++ ([(s, fst row) \<mapsto> snd row] ++ ?M)"
    by (simp add: fun_eq_iff map_add_def split: option.splits)
  also have "\<dots> = m ++ map_of (rev (map (\<lambda>row. ((s, fst row), snd row)) (row # df)))"
    by simp
  finally show ?case .
qed

lemma fold_upd_twice:
  "fold (\<lambda>row m. m((s, fst row) \<mapsto> snd row)) df
     (fold (\<lambda>row m. m((s, fst row) \<mapsto> snd row)) df m) =
   fold (\<lambda>row m. m((s, fst row) \<mapsto> snd row)) df m"
  unfolding fold_upd_map_add
  by (simp add: fun_eq_iff map_add_def split: option.splits)

lemma unique_keys_upserts: "unique_keys d \<Longrightarrow> unique_keys (upserts calls d)"
  by (induction calls arbitrary: d) (simp_all add: upserts_def unique_keys_store)

lemma unique_keys_create_tables: "unique_keys create_tables"
  by (simp add: unique_keys_def create_tables_def)


lemma sort_key_fst_unique:
  assumes "distinct (map fst xs)" and "distinct (map fst ys)" and "set xs = set ys"
  shows "sort_key fst xs = sort_key fst ys"
proof (rule map_sorted_distinct_set_unique [where f = fst])
  have ix: "inj_on fst (set xs)" using assms(1) by (simp add: distinct_map)
  show "inj_on fst (set (sort_key fst xs) \<union> set (sort_key fst ys))"
    using ix assms(3) by simp
  show "sorted (map fst (sort_key fst xs))"
    by (rule sorted_sort_key)
  show "sorted (map fst (sort_key fst ys))"
    by (rule sorted_sort_key)
  show "distinct (map fst (sort_key fst xs))"
    using assms(1) by (simp add: distinct_map)
  show "distinct (map fst (sort_key fst ys))"
    using assms(2) by (simp add: distinct_map)
  show "set (sort_key fst xs) = set (sort_key fst ys)"
    using assms(3) by simp
qed

lemma selected_set:
  assumes "unique_keys d"
  shows "set (map (\<lambda>r. (hr_date r, row_bar r))
            (filter (\<lambda>r. hr_symbol r = symb \<and> in_window now days (hr_date r))
               (historical_data d))) =
         {(day, b). bars_of d (symb, day) = Some b \<and> in_window now days day}"
proof -
  have dist: "distinct (map fst (map (\<lambda>r. (row_key r, row_bar r)) (historical_data d)))"
    using assms by (simp add: unique_keys_def comp_def)
  have look: "bars_of d k = Some b \<longleftrightarrow>
        (k, b) \<in> set (map (\<lambda>r. (row_key r, row_bar r)) (historical_data d))" for k b
    unfolding bars_of_def using dist by (rule map_of_eq_Some_iff)
  show ?thesis
    by (auto simp: look row_key_def image_iff)
qed

lemma selected_distinct:
  assumes "unique_keys d"
  shows "distinct (map fst (map (\<lambda>r. (hr_date r, row_bar r))
            (filter (\<lambda>r. hr_symbol r = symb \<and> in_window now days (hr_date r))
               (historical_data d))))"
proof -
  let ?rows = "filter (\<lambda>r. hr_symbol r = symb \<and> in_window now days (hr_date r))
               (historical_data d)"
  have k: "distinct (map row_key ?rows)"
    using assms unfolding unique_keys_def by (rule distinct_map_filter)
  have "map row_key ?rows = map (Pair symb) (map hr_date ?rows)"
    by (simp add: row_key_def)
  then have "distinct (map (Pair symb) (map hr_date ?rows))"
    using k by (simp only:)
  then have dd: "distinct (map hr_date ?rows)"
    by (rule distinct_map [THEN iffD1, THEN conjunct1])
  have "map fst (map (\<lambda>r. (hr_date r, row_bar r)) ?rows) = map hr_date ?rows"
    by simp
  then show ?thesis using dd by (simp only:)
qed

lemma series_determined:
  assumes "unique_keys d" and "unique_keys d'" and "bars_of d = bars_of d'"
  shows "db_get_historical_data now symb days d = db_get_historical_data now symb days d'"
proof -
  have eq: "db_get_historical_data now symb days x =
        sort_key fst (map (\<lambda>r. (hr_date r, row_bar r))
            (filter (\<lambda>r. hr_symbol r = symb \<and> in_window now days (hr_date r))
               (historical_data x)))" for x
    by (simp add: db_get_historical_data_def row_bar_def)
  show ?thesis
    unfolding eq
    by (rule sort_key_fst_unique)
       (simp_all only: selected_distinct [OF assms(1)] selected_distinct [OF assms(2)]
          selected_set [OF assms(1)] selected_set [OF assms(2)] assms(3))
qed

lemma series_dates_distinct:
  "unique_keys d \<Longrightarrow> distinct (map fst (db_get_historical_data now symb days d))"
proof -
  assume u: "unique_keys d"
  have "distinct (map fst (sort_key fst (map (\<lambda>r. (hr_date r, row_bar r))
            (filter (\<lambda>r. hr_symbol r = symb \<and> in_window now days (hr_date r))
               (historical_data d)))))"
    using selected_distinct [OF u, of symb now days]
    by (simp only: distinct_map distinct_sort set_sort)
  then show ?thesis by (simp add: db_get_historical_data_def row_bar_def)
qed

text \<open>
  C9.  After any sequence of upserts on a fresh database, upserting a Series a second
  time leaves every stored Series (of every symbol, under every window) as it is after
  the first upsert, and no stored Series has two bars with the same date.
\<close>

theorem store_historical_data_idempotent:
  "db_get_historical_data now symb days
     (store_historical_data t2 s df (store_historical_data t1 s df (upserts calls create_tables))) =
   db_get_historical_data now symb days
     (store_historical_data t1 s df (upserts calls create_tables)) \<and>
   distinct (map fst (db_get_historical_data now symb days (upserts calls create_tables)))"
proof -
  let ?d = "upserts calls create_tables"
  have u: "unique_keys ?d"
    by (rule unique_keys_upserts) (rule unique_keys_create_tables)
  have u1: "unique_keys (store_historical_data t1 s df ?d)"
    using u by (rule unique_keys_store)
  have u2: "unique_keys (store_historical_data t2 s df (store_historical_data t1 s df ?d))"
    using u1 by (rule unique_keys_store)
  have b: "bars_of (store_historical_data t2 s df (store_historical_data t1 s df ?d)) =
           bars_of (store_historical_data t1 s df ?d)"
    by (simp only: bars_of_store fold_upd_twice)
  show ?thesis
    using series_determined [OF u2 u1 b] series_dates_distinct [OF u] by simp
qed


theorem store_historical_data_idempotent_witness:
  "db_get_historical_data 0 ''AAPL'' None
     (store_historical_data 3 ''AAPL''
        [(1, \<lparr>Open = 2, High = 2, Low = 2, Close = 2, Volume = 0\<rparr>),
         (2, \<lparr>Open = 3, High = 3, Low = 3, Close = 3, Volume = 0\<rparr>)]
        (store_historical_data 2 ''AAPL''
           [(1, \<lparr>Open = 2, High = 2, Low = 2, Close = 2, Volume = 0\<rparr>),
            (2, \<lparr>Open = 3, High = 3, Low = 3, Close = 3, Volume = 0\<rparr>)]
           (upserts [(1, ''AAPL'', [(1, \<lparr>Open = 1, High = 1, Low = 1, Close = 1, Volume = 0\<rparr>)])]
              create_tables))) =
   [(1, \<lparr>Open = 2, High = 2, Low = 2, Close = 2, Volume = 0\<rparr>),
    (2, \<lparr>Open = 3, High = 3, Low = 3, Close = 3, Volume = 0\<rparr>)]"
proof -
  let ?df = "[(1, \<lparr>Open = 2, High = 2, Low = 2, Close = 2, Volume = 0\<rparr>),
              (2, \<lparr>Open = 3, High = 3, Low = 3, Close = 3, Volume = 0\<rparr>)] :: dataframe"
  let ?calls = "[(1, ''AAPL'', [(1, \<lparr>Open = 1, High = 1, Low = 1, Close = 1, Volume = 0\<rparr>)])]
                  :: (int \<times> string \<times> dataframe) list"
  have once: "db_get_historical_data 0 ''AAPL'' None
                (store_historical_data 2 ''AAPL'' ?df (upserts ?calls create_tables)) = ?df"
    by (simp add: db_get_historical_data_def store_historical_data_def upserts_def
        create_tables_def insert_or_replace_def in_window_def Let_def)
  show ?thesis
    using store_historical_data_idempotent [of 0 "''AAPL''" None 3 "''AAPL''" ?df 2 ?calls] once
    by simp
qed

section \<open>Properties of the gateway\<close>

lemma is_recent_iff: "is_recent now (Some day) \<longleftrightarrow> date_of now \<le> day"
proof -
  have "(now - day * 86400) div 86400 = (now + (- day) * 86400) div 86400"
    by simp
  also have "\<dots> = - day + now div 86400"
    by (rule div_mult_self1) simp
  finally have e: "(now - day * 86400) div 86400 = now div 86400 - day"
    by simp
  have "(q - day < 1) = (q \<le> day)" for q :: int
    by linarith
  then show ?thesis
    by (simp only: is_recent_def date_of_def option.case e)
qed

lemma cached_window_fetch_calls [simp]:
  "cached_window now symbol period (f\<lparr>fetch_calls := n\<rparr>) = cached_window now symbol period f"
  by (simp add: cached_window_def)

text \<open>
  C4, amended.  (a) Without force, when the cache holds bars of the symbol inside the
  requested window and its latest bar is dated less than one day before now, the cached
  window is returned and nothing else happens: no source is invoked.  (b) Otherwise
  exactly one source is invoked; when it succeeds, its Series is returned, and upserted
  into the cache when it is not empty; when it fails while the cache holds bars inside the
  requested window, those bars are returned.  (c) The call fails exactly when a source was
  invoked, it failed, and the cache holds no bar of the symbol inside the requested window.
\<close>

theorem get_historical_data_cache_policy:
  "(served_from_cache now symbol (resolve_period f period) force_fetch f \<longrightarrow>
      get_historical_data src now symbol period force_fetch f =
        (Inr (cached_window now symbol (resolve_period f period) f), f)) \<and>
   (\<not> served_from_cache now symbol (resolve_period f period) force_fetch f \<and>
    fetch src symbol (resolve_period f period) f = Inl e \<and>
    cached_window now symbol (resolve_period f period) f \<noteq> [] \<longrightarrow>
      get_historical_data src now symbol period force_fetch f =
        (Inr (cached_window now symbol (resolve_period f period) f),
         f\<lparr>fetch_calls := Suc (fetch_calls f)\<rparr>)) \<and>
   ((\<exists>err. fst (get_historical_data src now symbol period force_fetch f) = Inl err) \<longleftrightarrow>
      \<not> served_from_cache now symbol (resolve_period f period) force_fetch f \<and>
      (\<exists>err. fetch src symbol (resolve_period f period) f = Inl err) \<and>
      cached_window now symbol (resolve_period f period) f = []) \<and>
   (served_from_cache now symbol (resolve_period f period) force_fetch f \<longleftrightarrow>
      \<not> force_fetch \<and> cached_window now symbol (resolve_period f period) f \<noteq> [] \<and>
      (\<exists>day. get_last_historical_date symbol (db f) = Some day \<and> date_of now \<le> day)) \<and>
   (\<not> served_from_cache now symbol (resolve_period f period) force_fetch f \<longrightarrow>
      fetch_calls (snd (get_historical_data src now symbol period force_fetch f)) =
        Suc (fetch_calls f)) \<and>
   (\<not> served_from_cache now symbol (resolve_period f period) force_fetch f \<and>
    fetch src symbol (resolve_period f period) f = Inr df \<longrightarrow>
      get_historical_data src now symbol period force_fetch f =
        (Inr df,
         if df \<noteq> []
         then f\<lparr>fetch_calls := Suc (fetch_calls f),
                db := store_historical_data now symbol df (db f)\<rparr>
         else f\<lparr>fetch_calls := Suc (fetch_calls f)\<rparr>))"
proof (intro conjI)
  show "served_from_cache now symbol (resolve_period f period) force_fetch f \<longrightarrow>
      get_historical_data src now symbol period force_fetch f =
        (Inr (cached_window now symbol (resolve_period f period) f), f)"
    by (simp add: get_historical_data_def Let_def)
  show "\<not> served_from_cache now symbol (resolve_period f period) force_fetch f \<and>
    fetch src symbol (resolve_period f period) f = Inl e \<and>
    cached_window now symbol (resolve_period f period) f \<noteq> [] \<longrightarrow>
      get_historical_data src now symbol period force_fetch f =
        (Inr (cached_window now symbol (resolve_period f period) f),
         f\<lparr>fetch_calls := Suc (fetch_calls f)\<rparr>)"
    by (simp add: get_historical_data_def Let_def)
  show "(\<exists>err. fst (get_historical_data src now symbol period force_fetch f) = Inl err) \<longleftrightarrow>
      \<not> served_from_cache now symbol (resolve_period f period) force_fetch f \<and>
      (\<exists>err. fetch src symbol (resolve_period f period) f = Inl err) \<and>
      cached_window now symbol (resolve_period f period) f = []"
    by (cases "fetch src symbol (resolve_period f period) f")
       (simp_all add: get_historical_data_def Let_def)
  show "served_from_cache now symbol (resolve_period f period) force_fetch f \<longleftrightarrow>
      \<not> force_fetch \<and> cached_window now symbol (resolve_period f period) f \<noteq> [] \<and>
      (\<exists>day. get_last_historical_date symbol (db f) = Some day \<and> date_of now \<le> day)"
    by (cases "get_last_historical_date symbol (db f)")
       (simp_all add: served_from_cache_def is_recent_iff, simp add: is_recent_def)
  show "\<not> served_from_cache now symbol (resolve_period f period) force_fetch f \<longrightarrow>
      fetch_calls (snd (get_historical_data src now symbol period force_fetch f)) =
        Suc (fetch_calls f)"
    by (cases "fetch src symbol (resolve_period f period) f")
       (simp_all add: get_historical_data_def Let_def)
  show "\<not> served_from_cache now symbol (resolve_period f period) force_fetch f \<and>
    fetch src symbol (resolve_period f period) f = Inr df \<longrightarrow>
      get_historical_data src now symbol period force_fetch f =
        (Inr df,
         if df \<noteq> []
         then f\<lparr>fetch_calls := Suc (fetch_calls f),
                db := store_historical_data now symbol df (db f)\<rparr>
         else f\<lparr>fetch_calls := Suc (fetch_calls f)\<rparr>)"
    by (simp add: get_historical_data_def Let_def)
qed


lemma window_of_fetcher_with_bar:
  "cached_window 8643600 ''AAPL'' ''5d''
     \<lparr>api_key = k, db = store_historical_data t ''AAPL'' [(day, one_bar)] create_tables,
      fetch_calls = n\<rparr> =
     (if 95 \<le> day then [(day, one_bar)] else [])"
  by (simp add: cached_window_def db_get_historical_data_def store_historical_data_def
      create_tables_def insert_or_replace_def in_window_def period_to_days_def date_of_def)

lemma last_date_of_fetcher_with_bar:
  "get_last_historical_date ''AAPL'' (db (fetcher_with_bar t day)) = Some day"
  by (simp add: get_last_historical_date_def store_historical_data_def
      create_tables_def insert_or_replace_def)

lemma served_fetcher_with_bar:
  "served_from_cache 8643600 ''AAPL'' ''5d'' False (fetcher_with_bar t day) \<longleftrightarrow> 100 \<le> day"
  unfolding served_from_cache_def window_of_fetcher_with_bar last_date_of_fetcher_with_bar
    is_recent_iff
  by (simp add: date_of_def)

lemma fetch_sources_down: "fetch sources_down symbol period f = Inl FetchError"
  by (simp add: fetch_def)

text \<open>
  C4 as stated fails twice.  At 01:00 of day 100, with the sources down and a 5-day
  window: a cache whose only AAPL bar is of day 0 holds data for the symbol, yet the call
  fails; and a cache filled one hour earlier with the bar of day 99, which covers the
  window, is not served without a fetch: a source is invoked.
\<close>

theorem get_historical_data_counterexample:
  "db_get_historical_data 8643600 ''AAPL'' None (db (fetcher_with_bar 0 0)) = [(0, one_bar)] \<and>
   get_historical_data sources_down 8643600 ''AAPL'' (Some ''5d'') False (fetcher_with_bar 0 0) =
     (Inl NoHistoricalData, (fetcher_with_bar 0 0)\<lparr>fetch_calls := 1\<rparr>) \<and>
   cached_window 8643600 ''AAPL'' ''5d'' (fetcher_with_bar 8640000 99) = [(99, one_bar)] \<and>
   fetch_calls (snd (get_historical_data sources_down 8643600 ''AAPL'' (Some ''5d'') False
                       (fetcher_with_bar 8640000 99))) = 1"
proof -
  have a: "db_get_historical_data 8643600 ''AAPL'' None (db (fetcher_with_bar 0 0)) =
             [(0, one_bar)]"
    by (simp add: db_get_historical_data_def store_historical_data_def
        create_tables_def insert_or_replace_def in_window_def)
  have b: "get_historical_data sources_down 8643600 ''AAPL'' (Some ''5d'') False
             (fetcher_with_bar 0 0) =
           (Inl NoHistoricalData, (fetcher_with_bar 0 0)\<lparr>fetch_calls := 1\<rparr>)"
    unfolding get_historical_data_def Let_def
    by (simp add: resolve_period_def served_fetcher_with_bar fetch_sources_down
        window_of_fetcher_with_bar)
  have c: "cached_window 8643600 ''AAPL'' ''5d'' (fetcher_with_bar 8640000 99) = [(99, one_bar)]"
    by (simp add: window_of_fetcher_with_bar)
  have d: "fetch_calls (snd (get_historical_data sources_down 8643600 ''AAPL'' (Some ''5d'') False
                       (fetcher_with_bar 8640000 99))) = 1"
    unfolding get_historical_data_def Let_def
    by (simp add: resolve_period_def served_fetcher_with_bar fetch_sources_down
        window_of_fetcher_with_bar)
  show ?thesis using a b c d by blast
qed

theorem get_historical_data_cache_policy_witness:
  "served_from_cache 8643600 ''AAPL'' ''5d'' False (fetcher_with_bar 8640000 100) \<and>
   get_historical_data sources_down 8643600 ''AAPL'' (Some ''5d'') False
       (fetcher_with_bar 8640000 100) =
     (Inr [(100, one_bar)], fetcher_with_bar 8640000 100) \<and>
   \<not> served_from_cache 8643600 ''AAPL'' ''5d'' False (fetcher_with_bar 8640000 99) \<and>
   fetch sources_down ''AAPL'' ''5d'' (fetcher_with_bar 8640000 99) = Inl FetchError \<and>
   get_historical_data sources_down 8643600 ''AAPL'' (Some ''5d'') False
       (fetcher_with_bar 8640000 99) =
     (Inr [(99, one_bar)], (fetcher_with_bar 8640000 99)\<lparr>fetch_calls := 1\<rparr>) \<and>
   fetch_calls (snd (get_historical_data sources_up 8643600 ''AAPL'' (Some ''5d'') False
                       (fetcher_with_bar 8640000 99))) = 1 \<and>
   fetch sources_up ''AAPL'' ''5d'' (fetcher_with_bar 8640000 99) = Inr [(100, one_bar)] \<and>
   get_historical_data sources_up 8643600 ''AAPL'' (Some ''5d'') False
       (fetcher_with_bar 8640000 99) =
     (Inr [(100, one_bar)],
      (fetcher_with_bar 8640000 99)
        \<lparr>fetch_calls := 1,
         db := store_historical_data 8643600 ''AAPL'' [(100, one_bar)]
                 (db (fetcher_with_bar 8640000 99))\<rparr>)"
proof -
  have r: "resolve_period f (Some ''5d'') = ''5d''" for f
    by (simp add: resolve_period_def)
  have s100: "served_from_cache 8643600 ''AAPL'' ''5d'' False (fetcher_with_bar 8640000 100)"
    by (simp add: served_fetcher_with_bar)
  have s99: "\<not> served_from_cache 8643600 ''AAPL'' ''5d'' False (fetcher_with_bar 8640000 99)"
    by (simp add: served_fetcher_with_bar)
  have up: "fetch sources_up ''AAPL'' ''5d'' (fetcher_with_bar 8640000 99) = Inr [(100, one_bar)]"
    by (simp add: fetch_def)
  note t100 = get_historical_data_cache_policy
    [of 8643600 "''AAPL''" "fetcher_with_bar 8640000 100" "Some ''5d''" False sources_down
      FetchError "[]"]
  note t99 = get_historical_data_cache_policy
    [of 8643600 "''AAPL''" "fetcher_with_bar 8640000 99" "Some ''5d''" False sources_down
      FetchError "[]"]
  note u99 = get_historical_data_cache_policy
    [of 8643600 "''AAPL''" "fetcher_with_bar 8640000 99" "Some ''5d''" False sources_up
      FetchError "[(100, one_bar)]"]
  have a: "get_historical_data sources_down 8643600 ''AAPL'' (Some ''5d'') False
       (fetcher_with_bar 8640000 100) =
     (Inr [(100, one_bar)], fetcher_with_bar 8640000 100)"
    using t100 s100 unfolding r window_of_fetcher_with_bar by simp
  have b: "get_historical_data sources_down 8643600 ''AAPL'' (Some ''5d'') False
       (fetcher_with_bar 8640000 99) =
     (Inr [(99, one_bar)], (fetcher_with_bar 8640000 99)\<lparr>fetch_calls := 1\<rparr>)"
    using t99 s99 unfolding r window_of_fetcher_with_bar fetch_sources_down by simp
  have c: "fetch_calls (snd (get_historical_data sources_up 8643600 ''AAPL'' (Some ''5d'') False
                       (fetcher_with_bar 8640000 99))) = 1"
    using u99 s99 unfolding r by simp
  have d: "get_historical_data sources_up 8643600 ''AAPL'' (Some ''5d'') False
       (fetcher_with_bar 8640000 99) =
     (Inr [(100, one_bar)],
      (fetcher_with_bar 8640000 99)
        \<lparr>fetch_calls := 1,
         db := store_historical_data 8643600 ''AAPL'' [(100, one_bar)]
                 (db (fetcher_with_bar 8640000 99))\<rparr>)"
    using u99 s99 up unfolding r by simp
  show ?thesis using s100 s99 a b c d up fetch_sources_down by blast
qed

end
